theory Spec2Isabelle
  imports Complex_Main "HOL-Library.Log_Nat"
begin

section \<open>The command-line driver of SynthMark (apps/synthmark.cpp)\<close>

text \<open>
  The driver parses its arguments into nine local variables, validates them, constructs
  one of four test harnesses, runs it and returns the result code. The harness classes,
  the audio sink, the result object and the constants of \<^verbatim>\<open>SynthMark.h\<close> are
  declared in headers that are not part of the source at hand. The model therefore
  \<^item> takes the constants of \<^verbatim>\<open>SynthMark.h\<close> as a parameter (the record \<open>synthmark_h\<close>);
  \<^item> records every observable action of \<open>main\<close> (each \<^verbatim>\<open>printf\<close>, each constructor
    and method call on the sink and the harness) as an event of a trace;
  \<^item> takes the effect of \<^verbatim>\<open>runTest\<close> on the shared \<^verbatim>\<open>SynthMarkResult\<close> as a
    parameter: a function of everything done so far and of the three arguments of the call;
  \<^item> computes the two \<^verbatim>\<open>double\<close> products of the source in IEEE 754 binary64
    arithmetic, rounding to nearest with ties to even.
\<close>

subsection \<open>IEEE 754 binary64 arithmetic\<close>

text \<open>
  A finite \<^verbatim>\<open>double\<close> is represented by the rational number it denotes.
  \<open>round_double x\<close> is the double nearest to \<open>x\<close>, ties going to the even
  significand: with \<open>2^e \<le> |x| < 2^(e+1)\<close> the doubles around \<open>x\<close> are the multiples of
  \<open>2^(e-52)\<close>, and of \<open>2^(-1074)\<close> below the normal range. It is the value of a decimal
  literal and the result of every arithmetic operation. Overflow to infinity is not
  represented: line 167 multiplies a percent between 1 and 100 by 0.01, and a constant
  initializer that overflows does not compile.
\<close>

type_synonym double = rat

definition pow2 :: "int \<Rightarrow> rat" where
  "pow2 k = (if 0 \<le> k then of_int (2 ^ nat k) else 1 / of_int (2 ^ nat (- k)))"

definition round_half_even :: "rat \<Rightarrow> int" where
  "round_half_even x =
     (let f = \<lfloor>x\<rfloor>; d = x - of_int f in
      if d < 1 / 2 then f
      else if 1 / 2 < d then f + 1
      else if even f then f else f + 1)"

text \<open>The exponent \<open>e\<close> with \<open>2^e \<le> |x| < 2^(e+1)\<close>, from the bit lengths of the fraction.\<close>

definition binary_exponent :: "rat \<Rightarrow> int" where
  "binary_exponent x =
     (case quotient_of \<bar>x\<bar> of (a, b) \<Rightarrow>
        (let k = bitlen a - bitlen b in if pow2 k \<le> \<bar>x\<bar> then k else k - 1))"

definition round_double :: "rat \<Rightarrow> double" where
  "round_double x =
     (if x = 0 then 0
      else (let q = pow2 (max (binary_exponent x) (- 1022) - 52)
            in of_int (round_half_even (x / q)) * q))"

text \<open>The conversion of an \<^verbatim>\<open>int32_t\<close> to \<^verbatim>\<open>double\<close> is exact: 32 bits fit in 53.\<close>

definition double_of_int32 :: "int \<Rightarrow> double" where
  "double_of_int32 i = of_int i"

definition double_mul :: "double \<Rightarrow> double \<Rightarrow> double" where
  "double_mul a b = round_double (a * b)"

subsection \<open>Constants of SynthMark.h and the defaults derived from them\<close>

text \<open>
  \<open>SYNTHMARK_TARGET_CPU_LOAD\<close> holds the decimal value written in the header; it is taken
  to be a floating literal of type \<^verbatim>\<open>double\<close>, and is rounded where it is used.
\<close>

record synthmark_h =
  SYNTHMARK_MAJOR_VERSION :: int
  SYNTHMARK_MINOR_VERSION :: int
  SYNTHMARK_FRAMES_PER_BURST :: int
  SYNTHMARK_TARGET_CPU_LOAD :: rat
  SYNTHMARK_SAMPLE_RATE :: int
  SYNTHMARK_MAX_VOICES :: int
  SYNTHMARK_CPU_UNSPECIFIED :: int

text \<open>The C cast \<^verbatim>\<open>(int) x\<close> of a \<^verbatim>\<open>double\<close> truncates towards zero.\<close>

definition c_int_cast :: "double \<Rightarrow> int" where
  "c_int_cast x = (if 0 \<le> x then \<lfloor>x\<rfloor> else \<lceil>x\<rceil>)"

definition DEFAULT_TEST_CODE :: char where
  "DEFAULT_TEST_CODE = CHR ''v''"

definition DEFAULT_SECONDS :: int where
  "DEFAULT_SECONDS = 10"

definition DEFAULT_FRAMES_PER_BURST :: "synthmark_h \<Rightarrow> int" where
  "DEFAULT_FRAMES_PER_BURST h = SYNTHMARK_FRAMES_PER_BURST h"

definition DEFAULT_NUM_VOICES :: int where
  "DEFAULT_NUM_VOICES = 8"

definition DEFAULT_NOTE_ON_DELAY :: int where
  "DEFAULT_NOTE_ON_DELAY = 0"

definition DEFAULT_PERCENT_CPU :: "synthmark_h \<Rightarrow> int" where
  "DEFAULT_PERCENT_CPU h =
     c_int_cast (double_mul (double_of_int32 100) (round_double (SYNTHMARK_TARGET_CPU_LOAD h)))"

subsection \<open>C strings and atoi\<close>

text \<open>
  An argument is a NUL-terminated string; the model keeps the characters before the
  terminator. Reading index \<open>i\<close> of an argument returns the terminator when \<open>i\<close> is the
  length. \<open>main\<close> reads \<^verbatim>\<open>arg[1]\<close> only after \<^verbatim>\<open>arg[0] == '-'\<close> and
  \<^verbatim>\<open>arg[2]\<close> only after \<^verbatim>\<open>arg[1]\<close> matched a letter, so it never reads past the
  terminator.
\<close>

definition c_char_at :: "string \<Rightarrow> nat \<Rightarrow> char" where
  "c_char_at s i = (if i < length s then s ! i else CHR 0x00)"

definition isspace :: "char \<Rightarrow> bool" where
  "isspace c = (c = CHR 0x20 \<or> c = CHR 0x09 \<or> c = CHR 0x0A \<or> c = CHR 0x0B
                \<or> c = CHR 0x0C \<or> c = CHR 0x0D)"

definition isdigit :: "char \<Rightarrow> bool" where
  "isdigit c = (48 \<le> (of_char c :: nat) \<and> (of_char c :: nat) \<le> 57)"

fun digits_value :: "int \<Rightarrow> string \<Rightarrow> int" where
  "digits_value acc [] = acc"
| "digits_value acc (c # cs) =
     (if isdigit c then digits_value (acc * 10 + (of_char c - 48)) cs else acc)"

definition strtol10 :: "string \<Rightarrow> int" where
  "strtol10 s =
     (let s1 = dropWhile isspace s;
          v = (case s1 of
                 [] \<Rightarrow> 0
               | c # r \<Rightarrow>
                   if c = CHR ''-'' then - digits_value 0 r
                   else if c = CHR ''+'' then digits_value 0 r
                   else digits_value 0 s1)
      in max (- (2 ^ 63)) (min (2 ^ 63 - 1) v))"

definition int32_of :: "int \<Rightarrow> int" where
  "int32_of x = (x + 2 ^ 31) mod 2 ^ 32 - 2 ^ 31"

text \<open>
  \<^verbatim>\<open>atoi\<close> belongs to the C library: it is \<^verbatim>\<open>(int) strtol(s, NULL, 10)\<close>. It skips
  white space, reads an optional sign and the longest run of decimal digits, and yields 0
  when there is no digit. A value that does not fit is undefined behaviour in ISO C; the
  model follows the usual implementation (saturation to \<^verbatim>\<open>long\<close>, then truncation
  to 32 bits), so every parsed variable holds a value of \<^verbatim>\<open>int32_t\<close>.
\<close>

definition atoi :: "string \<Rightarrow> int" where
  "atoi s = int32_of (strtol10 s)"

subsection \<open>Observable actions\<close>

datatype harness_kind = VoiceMarkHarness | LatencyMarkHarness | JitterMarkHarness
  | UtilizationMarkHarness

datatype harness_call =
    setTargetCpuLoad double
  | setInitialVoiceCount int
  | setNumVoicesHigh int
  | setNumVoices int
  | setDelayNotesOn int

text \<open>One constructor for each \<^verbatim>\<open>printf\<close> of the source, carrying its arguments.\<close>

datatype message =
    Banner int int
  | UsageText string
  | UnrecognizedSwitch string
  | UnrecognizedArgument string
  | InvalidPercentCpu int
  | InvalidNumVoices int
  | InvalidNumVoicesHigh int
  | NumVoicesHighOnlyLatencyMark
  | InvalidDuration int
  | InvalidDelay int
  | BlockSizeTooSmall int
  | UnrecognizedTestCode char
  | TestNameLine harness_kind
  | NumVoicesLine int
  | NumVoicesHighLine int
  | NoteOnDelayLine int
  | TargetCpuLine int
  | FramesPerBurstLine int
  | MsecPerBurstLine int int
  | CpuAffinityLine int
  | WaitLine int
  | ResultsBegin
  | ResultMessage string
  | ResultsEnd
  | BenchmarkComplete

datatype event =
    Printf message
  | Fflush
  | SetRequestedCpu int
  | New harness_kind
  | Call harness_call
  | RunTest int int int

record SynthMarkResult =
  resultCode :: int
  resultMessage :: string

type_synonym run_test = "event list \<Rightarrow> int \<Rightarrow> int \<Rightarrow> int \<Rightarrow> SynthMarkResult"

record outcome =
  trace :: "event list"
  exit_status :: int

fun is_New :: "event \<Rightarrow> bool" where
  "is_New (New k) = True"
| "is_New e = False"

fun is_RunTest :: "event \<Rightarrow> bool" where
  "is_RunTest (RunTest r b s) = True"
| "is_RunTest e = False"

definition constructed :: "event list \<Rightarrow> event list" where
  "constructed tr = filter is_New tr"

definition runs :: "event list \<Rightarrow> event list" where
  "runs tr = filter is_RunTest tr"

subsection \<open>usage and main\<close>

definition usage :: "string \<Rightarrow> event list" where
  "usage name = [Printf (UsageText name)]"

record locals =
  percentCpu :: int
  sampleRate :: int
  framesPerBurst :: int
  numSeconds :: int
  numVoices :: int
  numVoicesHigh :: int
  numSecondsDelayNoteOn :: int
  cpuAffinity :: int
  testCode :: char

definition initial_locals :: "synthmark_h \<Rightarrow> locals" where
  "initial_locals h =
     \<lparr> percentCpu = DEFAULT_PERCENT_CPU h,
       sampleRate = SYNTHMARK_SAMPLE_RATE h,
       framesPerBurst = DEFAULT_FRAMES_PER_BURST h,
       numSeconds = DEFAULT_SECONDS,
       numVoices = DEFAULT_NUM_VOICES,
       numVoicesHigh = 0,
       numSecondsDelayNoteOn = DEFAULT_NOTE_ON_DELAY,
       cpuAffinity = SYNTHMARK_CPU_UNSPECIFIED h,
       testCode = DEFAULT_TEST_CODE \<rparr>"

text \<open>
  The body of the argument loop (lines 78 to 121) for one argument: either the updated
  variables, or the events and the status of the \<^verbatim>\<open>return\<close> that leaves \<open>main\<close>.
\<close>

definition parse_arg :: "string \<Rightarrow> string \<Rightarrow> locals \<Rightarrow> (event list \<times> int) + locals" where
  "parse_arg argv0 arg v =
     (if c_char_at arg 0 = CHR ''-'' then
        (let c = c_char_at arg 1 in
         if c = CHR ''c'' then Inr (v\<lparr>cpuAffinity := atoi (drop 2 arg)\<rparr>)
         else if c = CHR ''p'' then Inr (v\<lparr>percentCpu := atoi (drop 2 arg)\<rparr>)
         else if c = CHR ''n'' then Inr (v\<lparr>numVoices := atoi (drop 2 arg)\<rparr>)
         else if c = CHR ''N'' then Inr (v\<lparr>numVoicesHigh := atoi (drop 2 arg)\<rparr>)
         else if c = CHR ''d'' then Inr (v\<lparr>numSecondsDelayNoteOn := atoi (drop 2 arg)\<rparr>)
         else if c = CHR ''r'' then Inr (v\<lparr>sampleRate := atoi (drop 2 arg)\<rparr>)
         else if c = CHR ''s'' then Inr (v\<lparr>numSeconds := atoi (drop 2 arg)\<rparr>)
         else if c = CHR ''b'' then Inr (v\<lparr>framesPerBurst := atoi (drop 2 arg)\<rparr>)
         else if c = CHR ''t'' then Inr (v\<lparr>testCode := c_char_at arg 2\<rparr>)
         else if c = CHR ''h'' \<or> c = CHR ''?'' then Inl (usage argv0, 0)
         else Inl (Printf (UnrecognizedSwitch arg) # usage argv0, 1))
      else Inl (Printf (UnrecognizedArgument arg) # usage argv0, 1))"

text \<open>The loop over \<^verbatim>\<open>argv[1] .. argv[argc - 1]\<close>.\<close>

fun parse_args :: "string \<Rightarrow> string list \<Rightarrow> locals \<Rightarrow> (event list \<times> int) + locals" where
  "parse_args argv0 [] v = Inr v"
| "parse_args argv0 (arg # rest) v =
     (case parse_arg argv0 arg v of
        Inl r \<Rightarrow> Inl r
      | Inr v' \<Rightarrow> parse_args argv0 rest v')"

text \<open>
  \<open>main h runTest argv0 args\<close>: \<open>argv0\<close> is \<^verbatim>\<open>argv[0]\<close> and \<open>args\<close> are
  \<^verbatim>\<open>argv[1] .. argv[argc - 1]\<close>. The target load \<^verbatim>\<open>percentCpu * 0.01\<close> is the
  \<^verbatim>\<open>double\<close> product of the converted percent and of the double nearest to 1/100.
\<close>

definition main :: "synthmark_h \<Rightarrow> run_test \<Rightarrow> string \<Rightarrow> string list \<Rightarrow> outcome" where
  "main h runTest argv0 args =
     (let banner = [Printf (Banner (SYNTHMARK_MAJOR_VERSION h) (SYNTHMARK_MINOR_VERSION h))] in
      case parse_args argv0 args (initial_locals h) of
        Inl (evs, st) \<Rightarrow> \<lparr> trace = banner @ evs, exit_status = st \<rparr>
      | Inr v \<Rightarrow>
          if percentCpu v < 1 \<or> percentCpu v > 100 then
            \<lparr> trace = banner @ Printf (InvalidPercentCpu (percentCpu v)) # usage argv0,
              exit_status = 1 \<rparr>
          else if (numVoices v < 1 \<and> numVoicesHigh v \<le> 0)
                  \<or> numVoices v < 0
                  \<or> numVoices v > SYNTHMARK_MAX_VOICES h then
            \<lparr> trace = banner @ Printf (InvalidNumVoices (numVoices v)) # usage argv0,
              exit_status = 1 \<rparr>
          else if numVoicesHigh v \<noteq> 0 \<and> numVoicesHigh v < numVoices v then
            \<lparr> trace = banner @ Printf (InvalidNumVoicesHigh (numVoicesHigh v)) # usage argv0,
              exit_status = 1 \<rparr>
          else if numVoicesHigh v \<noteq> 0 \<and> testCode v \<noteq> CHR ''l'' then
            \<lparr> trace = banner @ Printf NumVoicesHighOnlyLatencyMark # usage argv0,
              exit_status = 1 \<rparr>
          else if numSeconds v < 1 then
            \<lparr> trace = banner @ Printf (InvalidDuration (numSeconds v)) # usage argv0,
              exit_status = 1 \<rparr>
          else if numSecondsDelayNoteOn v < 0 \<or> numSecondsDelayNoteOn v > numSeconds v then
            \<lparr> trace = banner @ [Printf (InvalidDelay (numSecondsDelayNoteOn v))],
              exit_status = 1 \<rparr>
          else if framesPerBurst v < 4 then
            \<lparr> trace = banner @ Printf (BlockSizeTooSmall (framesPerBurst v)) # usage argv0,
              exit_status = 1 \<rparr>
          else
            (let sink = banner @ [SetRequestedCpu (cpuAffinity v)];
                 harness =
                   (if testCode v = CHR ''v'' then
                      Some (VoiceMarkHarness,
                            [New VoiceMarkHarness,
                             Call (setTargetCpuLoad
                               (double_mul (double_of_int32 (percentCpu v))
                                  (round_double (1 / 100)))),
                             Call (setInitialVoiceCount (numVoices v))])
                    else if testCode v = CHR ''l'' then
                      Some (LatencyMarkHarness,
                            [New LatencyMarkHarness,
                             Call (setNumVoicesHigh (numVoicesHigh v))])
                    else if testCode v = CHR ''j'' then
                      Some (JitterMarkHarness, [New JitterMarkHarness])
                    else if testCode v = CHR ''u'' then
                      Some (UtilizationMarkHarness,
                            [New UtilizationMarkHarness,
                             Call (setNumVoices (numVoices v))])
                    else None)
             in case harness of
                  None \<Rightarrow>
                    \<lparr> trace = sink @ Printf (UnrecognizedTestCode (testCode v)) # usage argv0,
                      exit_status = 1 \<rparr>
                | Some (kind, created) \<Rightarrow>
                    (let history = sink @ created @
                           [Call (setNumVoices (numVoices v)),
                            Call (setDelayNotesOn (numSecondsDelayNoteOn v)),
                            Printf (TestNameLine kind),
                            Printf (NumVoicesLine (numVoices v)),
                            Printf (NumVoicesHighLine (numVoicesHigh v)),
                            Printf (NoteOnDelayLine (numSecondsDelayNoteOn v)),
                            Printf (TargetCpuLine (percentCpu v)),
                            Printf (FramesPerBurstLine (framesPerBurst v)),
                            Printf (MsecPerBurstLine (framesPerBurst v) (sampleRate v)),
                            Printf (CpuAffinityLine (cpuAffinity v)),
                            Printf (WaitLine (numSeconds v)),
                            Fflush];
                         result = runTest history (sampleRate v) (framesPerBurst v) (numSeconds v)
                     in \<lparr> trace = history @
                           [RunTest (sampleRate v) (framesPerBurst v) (numSeconds v),
                            Printf ResultsBegin,
                            Printf (ResultMessage (resultMessage result)),
                            Printf ResultsEnd,
                            Printf BenchmarkComplete],
                          exit_status = resultCode result \<rparr>)))"

subsection \<open>Predicates on the parsed variables\<close>

text \<open>
  The seven checks of lines 123 to 158, in the order of the source: \<open>valid_config\<close> holds
  when none of them returns.
\<close>

definition valid_config :: "synthmark_h \<Rightarrow> locals \<Rightarrow> bool" where
  "valid_config h v =
     (\<not> (percentCpu v < 1 \<or> percentCpu v > 100)
      \<and> \<not> ((numVoices v < 1 \<and> numVoicesHigh v \<le> 0)
             \<or> numVoices v < 0
             \<or> numVoices v > SYNTHMARK_MAX_VOICES h)
      \<and> \<not> (numVoicesHigh v \<noteq> 0 \<and> numVoicesHigh v < numVoices v)
      \<and> \<not> (numVoicesHigh v \<noteq> 0 \<and> testCode v \<noteq> CHR ''l'')
      \<and> \<not> (numSeconds v < 1)
      \<and> \<not> (numSecondsDelayNoteOn v < 0 \<or> numSecondsDelayNoteOn v > numSeconds v)
      \<and> \<not> (framesPerBurst v < 4))"

text \<open>The case labels of the switch on \<^verbatim>\<open>arg[1]\<close> (lines 81 to 109).\<close>

definition recognized_switch :: "string \<Rightarrow> bool" where
  "recognized_switch arg =
     (c_char_at arg 0 = CHR ''-'' \<and> c_char_at arg 1 \<in> set ''cpnNdrsbth?'')"

definition help_switch :: "string \<Rightarrow> bool" where
  "help_switch arg =
     (c_char_at arg 0 = CHR ''-'' \<and> (c_char_at arg 1 = CHR ''h'' \<or> c_char_at arg 1 = CHR ''?''))"

text \<open>
  An argument of \<^verbatim>\<open>atoi\<close> without a number: after the white space and the optional
  sign, the next character is not a digit.
\<close>

definition no_digits :: "string \<Rightarrow> bool" where
  "no_digits s =
     (let s1 = dropWhile isspace s;
          s2 = (if c_char_at s1 0 = CHR ''-'' \<or> c_char_at s1 0 = CHR ''+'' then tl s1 else s1)
      in \<not> isdigit (c_char_at s2 0))"

subsection \<open>Names for the two ends of a complete run\<close>

text \<open>
  The lines printed between the construction of the harness and the run (lines 199 to 208),
  and the outcome of \<open>main\<close> from \<^verbatim>\<open>runTest\<close> on (lines 211 to 219), given the
  events before the call.
\<close>

definition parameter_lines :: "harness_kind \<Rightarrow> locals \<Rightarrow> event list" where
  "parameter_lines kind v =
     [Printf (TestNameLine kind),
      Printf (NumVoicesLine (numVoices v)),
      Printf (NumVoicesHighLine (numVoicesHigh v)),
      Printf (NoteOnDelayLine (numSecondsDelayNoteOn v)),
      Printf (TargetCpuLine (percentCpu v)),
      Printf (FramesPerBurstLine (framesPerBurst v)),
      Printf (MsecPerBurstLine (framesPerBurst v) (sampleRate v)),
      Printf (CpuAffinityLine (cpuAffinity v)),
      Printf (WaitLine (numSeconds v)),
      Fflush]"

definition finished :: "run_test \<Rightarrow> locals \<Rightarrow> event list \<Rightarrow> outcome" where
  "finished runTest v history =
     \<lparr> trace = history @
         [RunTest (sampleRate v) (framesPerBurst v) (numSeconds v),
          Printf ResultsBegin,
          Printf (ResultMessage (resultMessage
            (runTest history (sampleRate v) (framesPerBurst v) (numSeconds v)))),
          Printf ResultsEnd,
          Printf BenchmarkComplete],
       exit_status =
         resultCode (runTest history (sampleRate v) (framesPerBurst v) (numSeconds v)) \<rparr>"

subsection \<open>A concrete header and a concrete harness, to run the model\<close>

text \<open>
  The values of \<^verbatim>\<open>SynthMark.h\<close> are not in the source at hand. The theorems hold for
  every header; \<open>example_h\<close> is one header on which the model is evaluated, and
  \<open>example_runTest\<close> a harness that answers with a result code taken from the duration.
\<close>

definition example_h :: synthmark_h where
  "example_h =
     \<lparr> SYNTHMARK_MAJOR_VERSION = 1,
       SYNTHMARK_MINOR_VERSION = 16,
       SYNTHMARK_FRAMES_PER_BURST = 64,
       SYNTHMARK_TARGET_CPU_LOAD = 1 / 2,
       SYNTHMARK_SAMPLE_RATE = 48000,
       SYNTHMARK_MAX_VOICES = 512,
       SYNTHMARK_CPU_UNSPECIFIED = - 1 \<rparr>"

definition example_runTest :: run_test where
  "example_runTest tr rate burst seconds =
     \<lparr> resultCode = (if seconds < 5 then 3 else 0), resultMessage = ''report'' \<rparr>"

section \<open>Rounding to double\<close>

lemma pow2_powi: "pow2 k = 2 powi k"
  by (simp add: pow2_def power_int_def inverse_eq_divide power_one_over)

lemma pow2_pos: "0 < pow2 k"
  by (simp add: pow2_powi)

lemma pow2_mono: "j \<le> k \<Longrightarrow> pow2 j \<le> pow2 k"
  by (simp add: pow2_powi power_int_increasing)

lemma pow2_less_cancel:
  assumes "pow2 j < pow2 k"
  shows "j < k"
proof (rule ccontr)
  assume "\<not> j < k"
  then have "pow2 k \<le> pow2 j" by (simp add: pow2_mono)
  with assms show False by simp
qed

lemma pow2_diff: "pow2 (j - k) = pow2 j / pow2 k"
  by (simp add: pow2_powi power_int_diff)

lemma pow2_nat: "0 \<le> k \<Longrightarrow> pow2 k = of_int (2 ^ nat k)"
  by (simp add: pow2_def)

lemma pow2_values: "pow2 0 = 1" "pow2 52 = of_int (2 ^ 52)" "pow2 53 = of_int (2 ^ 53)"
  by (simp_all add: pow2_def)

lemma binary_exponent_bounds:
  assumes "x \<noteq> 0"
  shows "pow2 (binary_exponent x) \<le> \<bar>x\<bar>" and "\<bar>x\<bar> < pow2 (binary_exponent x + 1)"
proof -
  obtain a b where q: "quotient_of \<bar>x\<bar> = (a, b)" by (cases "quotient_of \<bar>x\<bar>")
  from quotient_of_denom_pos [OF q] have b: "0 < b" .
  from quotient_of_div [OF q] have x: "\<bar>x\<bar> = of_int a / of_int b" .
  from assms have "0 < \<bar>x\<bar>" by simp
  with x b have a: "0 < a" by (simp add: zero_less_divide_iff)
  from bitlen_bounds [OF a] have a1: "2 ^ nat (bitlen a - 1) \<le> a" and a2: "a < 2 ^ nat (bitlen a)"
    by simp_all
  from bitlen_bounds [OF b] have b1: "2 ^ nat (bitlen b - 1) \<le> b" and b2: "b < 2 ^ nat (bitlen b)"
    by simp_all
  from a have la: "1 \<le> bitlen a" by (simp add: bitlen_alt_def)
  from b have lb: "1 \<le> bitlen b" by (simp add: bitlen_alt_def)
  from a1 la have ra1: "pow2 (bitlen a - 1) \<le> of_int a"
    by (simp add: pow2_nat del: of_int_power)
  from a2 la have ra2: "(of_int a :: rat) < pow2 (bitlen a)"
    by (simp add: pow2_nat del: of_int_power)
  from b1 lb have rb1: "pow2 (bitlen b - 1) \<le> of_int b"
    by (simp add: pow2_nat del: of_int_power)
  from b2 lb have rb2: "(of_int b :: rat) \<le> pow2 (bitlen b)"
    by (simp add: pow2_nat del: of_int_power)
  have "of_int a / of_int b < pow2 (bitlen a) / pow2 (bitlen b - 1)"
    using a ra2 rb1 by (intro frac_less) (simp_all add: pow2_pos)
  then have up: "\<bar>x\<bar> < pow2 (bitlen a - bitlen b + 1)"
    using pow2_diff [of "bitlen a" "bitlen b - 1"] by (simp add: x algebra_simps)
  have "pow2 (bitlen a - 1) / pow2 (bitlen b) \<le> of_int a / of_int b"
    using b ra1 rb2 a by (intro frac_le) simp_all
  then have lo: "pow2 (bitlen a - bitlen b - 1) \<le> \<bar>x\<bar>"
    using pow2_diff [of "bitlen a - 1" "bitlen b"] by (simp add: x algebra_simps)
  show "pow2 (binary_exponent x) \<le> \<bar>x\<bar>"
    using lo by (simp add: binary_exponent_def q Let_def)
  show "\<bar>x\<bar> < pow2 (binary_exponent x + 1)"
    using up by (simp add: binary_exponent_def q Let_def)
qed

lemma round_half_even_bounds:
  shows "\<lfloor>z\<rfloor> \<le> round_half_even z" and "round_half_even z \<le> \<lceil>z\<rceil>"
proof -
  show "\<lfloor>z\<rfloor> \<le> round_half_even z"
    by (simp add: round_half_even_def Let_def)
  have "\<lfloor>z\<rfloor> + 1 \<le> \<lceil>z\<rceil>" if "z - of_int \<lfloor>z\<rfloor> \<noteq> 0"
  proof -
    from that of_int_floor_le [of z] have "of_int \<lfloor>z\<rfloor> < z" by linarith
    then have "\<lfloor>z\<rfloor> < \<lceil>z\<rceil>" by (simp add: less_ceiling_iff)
    then show ?thesis by simp
  qed
  moreover have "\<lfloor>z\<rfloor> \<le> \<lceil>z\<rceil>" by (rule floor_le_ceiling)
  ultimately show "round_half_even z \<le> \<lceil>z\<rceil>"
    by (auto simp add: round_half_even_def Let_def)
qed

lemma round_double_pos:
  assumes "pow2 (- 1022) \<le> x"
  shows "0 < round_double x"
proof -
  from assms pow2_pos [of "- 1022"] have pos: "0 < x" by simp
  then have nz: "x \<noteq> 0" and ab: "\<bar>x\<bar> = x" by simp_all
  let ?e = "binary_exponent x"
  from binary_exponent_bounds [OF nz] ab
  have lo: "pow2 ?e \<le> x" and up: "x < pow2 (?e + 1)" by simp_all
  from assms up have "pow2 (- 1022) < pow2 (?e + 1)" by simp
  then have e: "- 1022 \<le> ?e" using pow2_less_cancel by fastforce
  let ?q = "pow2 (?e - 52)"
  have "pow2 52 = pow2 ?e / ?q" using pow2_diff [of ?e "?e - 52"] by simp
  also have "\<dots> \<le> x / ?q" using lo by (simp add: divide_right_mono pow2_pos less_imp_le)
  finally have "of_int (2 ^ 52) \<le> x / ?q" by (simp only: pow2_values)
  then have "1 \<le> x / ?q" by simp
  then have "1 \<le> \<lfloor>x / ?q\<rfloor>" by (simp add: le_floor_iff)
  with round_half_even_bounds(1) [of "x / ?q"] have "0 < round_half_even (x / ?q)"
    by linarith
  then have "0 < of_int (round_half_even (x / ?q)) * ?q" by (simp add: pow2_pos)
  with e nz show ?thesis by (simp add: round_double_def Let_def max_def)
qed

lemma round_double_le_1:
  assumes "0 < x" and "x < 1"
  shows "round_double x \<le> 1"
proof -
  from assms have nz: "x \<noteq> 0" and ab: "\<bar>x\<bar> = x" by simp_all
  let ?e = "binary_exponent x"
  let ?m = "max ?e (- 1022)"
  let ?q = "pow2 (?m - 52)"
  from binary_exponent_bounds [OF nz] ab
  have lo: "pow2 ?e \<le> x" and up: "x < pow2 (?e + 1)" by simp_all
  from lo assms(2) have "pow2 ?e < pow2 0" by (simp add: pow2_values)
  then have "?e < 0" by (rule pow2_less_cancel)
  then have m: "?m + 1 \<le> 0" by simp
  have "x < pow2 (?m + 1)" using up pow2_mono [of "?e + 1" "?m + 1"] by simp
  then have "x / ?q < pow2 (?m + 1) / ?q" by (simp add: divide_strict_right_mono pow2_pos)
  also have "\<dots> = pow2 53" using pow2_diff [of "?m + 1" "?m - 52"] by simp
  finally have "x / ?q \<le> of_int (2 ^ 53)" by (simp only: pow2_values)
  then have "\<lceil>x / ?q\<rceil> \<le> 2 ^ 53" by (simp only: ceiling_le_iff)
  with round_half_even_bounds(2) [of "x / ?q"] have "round_half_even (x / ?q) \<le> 2 ^ 53"
    by linarith
  then have "(of_int (round_half_even (x / ?q)) :: rat) \<le> of_int (2 ^ 53)"
    by (simp only: of_int_le_iff)
  then have "of_int (round_half_even (x / ?q)) * ?q \<le> of_int (2 ^ 53) * ?q"
    by (simp add: mult_right_mono pow2_pos less_imp_le del: of_int_power of_int_numeral)
  also have "of_int (2 ^ 53) * ?q = pow2 53 * ?q" by (simp only: pow2_values)
  also have "\<dots> = pow2 (?m + 1)"
  proof -
    have "?q \<noteq> 0" using pow2_pos [of "?m - 52"] by simp
    with pow2_diff [of "?m + 1" "?m - 52"] show ?thesis by (simp add: field_simps)
  qed
  also have "\<dots> \<le> pow2 0" using m by (intro pow2_mono) simp
  finally have "of_int (round_half_even (x / ?q)) * ?q \<le> 1" by (simp only: pow2_values)
  with nz show ?thesis by (simp add: round_double_def Let_def)
qed

lemma literal_0_01: "round_double (1 / 100) = 5764607523034235 / 576460752303423488"
  by code_simp

lemma load_100: "double_mul (double_of_int32 100) (round_double (1 / 100)) = 1"
  by code_simp

lemma load_7: "double_mul (double_of_int32 7) (round_double (1 / 100))
    = 1261007895663739 / 18014398509481984"
  by code_simp

lemma default_percent_truncates:
  "c_int_cast (double_mul (double_of_int32 100) (round_double (29 / 100))) = 28"
  by code_simp

lemma targetCpuLoad_range:
  assumes "1 \<le> p" and "p \<le> 100"
  shows "0 < double_mul (double_of_int32 p) (round_double (1 / 100))"
    and "double_mul (double_of_int32 p) (round_double (1 / 100)) \<le> 1"
proof -
  let ?c = "5764607523034235 / 576460752303423488 :: rat"
  let ?x = "of_int p * ?c"
  have eq: "double_mul (double_of_int32 p) (round_double (1 / 100)) = round_double ?x"
    by (simp only: double_mul_def double_of_int32_def literal_0_01)
  from assms(1) have "(1::rat) \<le> of_int p" by simp
  then have "1 * ?c \<le> ?x" by (intro mult_right_mono) simp_all
  then have lo: "?c \<le> ?x" by simp
  have "pow2 (- 1022) \<le> pow2 (- 7)" by (intro pow2_mono) simp
  also have "pow2 (- 7) \<le> ?c" by (simp add: pow2_def)
  finally have "pow2 (- 1022) \<le> ?x" using lo by simp
  then show "0 < double_mul (double_of_int32 p) (round_double (1 / 100))"
    unfolding eq by (rule round_double_pos)
  show "double_mul (double_of_int32 p) (round_double (1 / 100)) \<le> 1"
  proof (cases "p = 100")
    case True
    then show ?thesis by (simp only: load_100)
  next
    case False
    with assms(2) have "p \<le> 99" by simp
    then have "(of_int p :: rat) \<le> 99" by simp
    then have "?x \<le> 99 * ?c" by (intro mult_right_mono) simp_all
    also have "99 * ?c < 1" by simp
    finally have "?x < 1" .
    moreover from lo have "0 < ?x" by simp
    ultimately show ?thesis unfolding eq by (intro round_double_le_1)
  qed
qed

section \<open>Symbolic execution of main, one lemma for each path\<close>

lemma main_early_return:
  assumes "parse_args argv0 args (initial_locals h) = Inl (evs, st)"
  shows "main h runTest argv0 args =
    \<lparr> trace = Printf (Banner (SYNTHMARK_MAJOR_VERSION h) (SYNTHMARK_MINOR_VERSION h)) # evs,
      exit_status = st \<rparr>"
  using assms by (simp add: main_def split del: if_split)

lemma main_percentCpu:
  assumes "parse_args argv0 args (initial_locals h) = Inr v"
    and "percentCpu v < 1 \<or> percentCpu v > 100"
  shows "main h runTest argv0 args =
    \<lparr> trace = [Printf (Banner (SYNTHMARK_MAJOR_VERSION h) (SYNTHMARK_MINOR_VERSION h)),
               Printf (InvalidPercentCpu (percentCpu v)), Printf (UsageText argv0)],
      exit_status = 1 \<rparr>"
  unfolding main_def
  by (simp only: assms(1) sum.case Let_def if_P [OF assms(2)])
    (simp add: usage_def)

lemma main_numVoices:
  assumes "parse_args argv0 args (initial_locals h) = Inr v"
    and "\<not> (percentCpu v < 1 \<or> percentCpu v > 100)"
    and "(numVoices v < 1 \<and> numVoicesHigh v \<le> 0) \<or> numVoices v < 0
         \<or> numVoices v > SYNTHMARK_MAX_VOICES h"
  shows "main h runTest argv0 args =
    \<lparr> trace = [Printf (Banner (SYNTHMARK_MAJOR_VERSION h) (SYNTHMARK_MINOR_VERSION h)),
               Printf (InvalidNumVoices (numVoices v)), Printf (UsageText argv0)],
      exit_status = 1 \<rparr>"
  unfolding main_def
  by (simp only: assms(1) sum.case Let_def if_not_P [OF assms(2)] if_P [OF assms(3)])
    (simp add: usage_def)

lemma main_numVoicesHigh:
  assumes "parse_args argv0 args (initial_locals h) = Inr v"
    and "\<not> (percentCpu v < 1 \<or> percentCpu v > 100)"
    and "\<not> ((numVoices v < 1 \<and> numVoicesHigh v \<le> 0) \<or> numVoices v < 0
         \<or> numVoices v > SYNTHMARK_MAX_VOICES h)"
    and "numVoicesHigh v \<noteq> 0 \<and> numVoicesHigh v < numVoices v"
  shows "main h runTest argv0 args =
    \<lparr> trace = [Printf (Banner (SYNTHMARK_MAJOR_VERSION h) (SYNTHMARK_MINOR_VERSION h)),
               Printf (InvalidNumVoicesHigh (numVoicesHigh v)), Printf (UsageText argv0)],
      exit_status = 1 \<rparr>"
  unfolding main_def
  by (simp only: assms(1) sum.case Let_def if_not_P [OF assms(2)] if_not_P [OF assms(3)] if_P [OF assms(4)])
    (simp add: usage_def)

lemma main_highOnlyLatency:
  assumes "parse_args argv0 args (initial_locals h) = Inr v"
    and "\<not> (percentCpu v < 1 \<or> percentCpu v > 100)"
    and "\<not> ((numVoices v < 1 \<and> numVoicesHigh v \<le> 0) \<or> numVoices v < 0
         \<or> numVoices v > SYNTHMARK_MAX_VOICES h)"
    and "\<not> (numVoicesHigh v \<noteq> 0 \<and> numVoicesHigh v < numVoices v)"
    and "numVoicesHigh v \<noteq> 0 \<and> testCode v \<noteq> CHR ''l''"
  shows "main h runTest argv0 args =
    \<lparr> trace = [Printf (Banner (SYNTHMARK_MAJOR_VERSION h) (SYNTHMARK_MINOR_VERSION h)),
               Printf NumVoicesHighOnlyLatencyMark, Printf (UsageText argv0)],
      exit_status = 1 \<rparr>"
  unfolding main_def
  by (simp only: assms(1) sum.case Let_def if_not_P [OF assms(2)] if_not_P [OF assms(3)] if_not_P [OF assms(4)] if_P [OF assms(5)])
    (simp add: usage_def)

lemma main_numSeconds:
  assumes "parse_args argv0 args (initial_locals h) = Inr v"
    and "\<not> (percentCpu v < 1 \<or> percentCpu v > 100)"
    and "\<not> ((numVoices v < 1 \<and> numVoicesHigh v \<le> 0) \<or> numVoices v < 0
         \<or> numVoices v > SYNTHMARK_MAX_VOICES h)"
    and "\<not> (numVoicesHigh v \<noteq> 0 \<and> numVoicesHigh v < numVoices v)"
    and "\<not> (numVoicesHigh v \<noteq> 0 \<and> testCode v \<noteq> CHR ''l'')"
    and "numSeconds v < 1"
  shows "main h runTest argv0 args =
    \<lparr> trace = [Printf (Banner (SYNTHMARK_MAJOR_VERSION h) (SYNTHMARK_MINOR_VERSION h)),
               Printf (InvalidDuration (numSeconds v)), Printf (UsageText argv0)],
      exit_status = 1 \<rparr>"
  unfolding main_def
  by (simp only: assms(1) sum.case Let_def if_not_P [OF assms(2)] if_not_P [OF assms(3)] if_not_P [OF assms(4)] if_not_P [OF assms(5)] if_P [OF assms(6)])
    (simp add: usage_def)

lemma main_delay:
  assumes "parse_args argv0 args (initial_locals h) = Inr v"
    and "\<not> (percentCpu v < 1 \<or> percentCpu v > 100)"
    and "\<not> ((numVoices v < 1 \<and> numVoicesHigh v \<le> 0) \<or> numVoices v < 0
         \<or> numVoices v > SYNTHMARK_MAX_VOICES h)"
    and "\<not> (numVoicesHigh v \<noteq> 0 \<and> numVoicesHigh v < numVoices v)"
    and "\<not> (numVoicesHigh v \<noteq> 0 \<and> testCode v \<noteq> CHR ''l'')"
    and "\<not> numSeconds v < 1"
    and "numSecondsDelayNoteOn v < 0 \<or> numSecondsDelayNoteOn v > numSeconds v"
  shows "main h runTest argv0 args =
    \<lparr> trace = [Printf (Banner (SYNTHMARK_MAJOR_VERSION h) (SYNTHMARK_MINOR_VERSION h)),
               Printf (InvalidDelay (numSecondsDelayNoteOn v))],
      exit_status = 1 \<rparr>"
  unfolding main_def
  by (simp only: assms(1) sum.case Let_def if_not_P [OF assms(2)] if_not_P [OF assms(3)] if_not_P [OF assms(4)] if_not_P [OF assms(5)] if_not_P [OF assms(6)] if_P [OF assms(7)])
    (simp add: usage_def)

lemma main_framesPerBurst:
  assumes "parse_args argv0 args (initial_locals h) = Inr v"
    and "\<not> (percentCpu v < 1 \<or> percentCpu v > 100)"
    and "\<not> ((numVoices v < 1 \<and> numVoicesHigh v \<le> 0) \<or> numVoices v < 0
         \<or> numVoices v > SYNTHMARK_MAX_VOICES h)"
    and "\<not> (numVoicesHigh v \<noteq> 0 \<and> numVoicesHigh v < numVoices v)"
    and "\<not> (numVoicesHigh v \<noteq> 0 \<and> testCode v \<noteq> CHR ''l'')"
    and "\<not> numSeconds v < 1"
    and "\<not> (numSecondsDelayNoteOn v < 0 \<or> numSecondsDelayNoteOn v > numSeconds v)"
    and "framesPerBurst v < 4"
  shows "main h runTest argv0 args =
    \<lparr> trace = [Printf (Banner (SYNTHMARK_MAJOR_VERSION h) (SYNTHMARK_MINOR_VERSION h)),
               Printf (BlockSizeTooSmall (framesPerBurst v)), Printf (UsageText argv0)],
      exit_status = 1 \<rparr>"
  unfolding main_def
  by (simp only: assms(1) sum.case Let_def if_not_P [OF assms(2)] if_not_P [OF assms(3)] if_not_P [OF assms(4)] if_not_P [OF assms(5)] if_not_P [OF assms(6)] if_not_P [OF assms(7)] if_P [OF assms(8)])
    (simp add: usage_def)

lemma valid_configD:
  assumes "valid_config h v"
  shows "\<not> (percentCpu v < 1 \<or> percentCpu v > 100)"
    and "\<not> ((numVoices v < 1 \<and> numVoicesHigh v \<le> 0) \<or> numVoices v < 0
         \<or> numVoices v > SYNTHMARK_MAX_VOICES h)"
    and "\<not> (numVoicesHigh v \<noteq> 0 \<and> numVoicesHigh v < numVoices v)"
    and "\<not> (numVoicesHigh v \<noteq> 0 \<and> testCode v \<noteq> CHR ''l'')"
    and "\<not> numSeconds v < 1"
    and "\<not> (numSecondsDelayNoteOn v < 0 \<or> numSecondsDelayNoteOn v > numSeconds v)"
    and "\<not> framesPerBurst v < 4"
  using assms unfolding valid_config_def by blast+

lemma main_valid_config:
  assumes "parse_args argv0 args (initial_locals h) = Inr v"
    and "valid_config h v"
  shows "main h runTest argv0 args =
    (let sink = [Printf (Banner (SYNTHMARK_MAJOR_VERSION h) (SYNTHMARK_MINOR_VERSION h)),
                 SetRequestedCpu (cpuAffinity v)] in
     if testCode v = CHR ''v'' then
       finished runTest v (sink @
         [New VoiceMarkHarness,
          Call (setTargetCpuLoad
            (double_mul (double_of_int32 (percentCpu v)) (round_double (1 / 100)))),
          Call (setInitialVoiceCount (numVoices v)),
          Call (setNumVoices (numVoices v)),
          Call (setDelayNotesOn (numSecondsDelayNoteOn v))]
         @ parameter_lines VoiceMarkHarness v)
     else if testCode v = CHR ''l'' then
       finished runTest v (sink @
         [New LatencyMarkHarness,
          Call (setNumVoicesHigh (numVoicesHigh v)),
          Call (setNumVoices (numVoices v)),
          Call (setDelayNotesOn (numSecondsDelayNoteOn v))]
         @ parameter_lines LatencyMarkHarness v)
     else if testCode v = CHR ''j'' then
       finished runTest v (sink @
         [New JitterMarkHarness,
          Call (setNumVoices (numVoices v)),
          Call (setDelayNotesOn (numSecondsDelayNoteOn v))]
         @ parameter_lines JitterMarkHarness v)
     else if testCode v = CHR ''u'' then
       finished runTest v (sink @
         [New UtilizationMarkHarness,
          Call (setNumVoices (numVoices v)),
          Call (setNumVoices (numVoices v)),
          Call (setDelayNotesOn (numSecondsDelayNoteOn v))]
         @ parameter_lines UtilizationMarkHarness v)
     else
       \<lparr> trace = sink @ [Printf (UnrecognizedTestCode (testCode v)), Printf (UsageText argv0)],
         exit_status = 1 \<rparr>)"
  unfolding main_def
  by (simp only: assms(1) sum.case Let_def
        if_not_P [OF valid_configD(1) [OF assms(2)]]
        if_not_P [OF valid_configD(2) [OF assms(2)]]
        if_not_P [OF valid_configD(3) [OF assms(2)]]
        if_not_P [OF valid_configD(4) [OF assms(2)]]
        if_not_P [OF valid_configD(5) [OF assms(2)]]
        if_not_P [OF valid_configD(6) [OF assms(2)]]
        if_not_P [OF valid_configD(7) [OF assms(2)]])
     (simp add: finished_def parameter_lines_def usage_def)

lemma main_cases [consumes 1, case_names percentCpu numVoices numVoicesHigh highOnlyLatency
    numSeconds delay framesPerBurst valid]:
  assumes "parse_args argv0 args (initial_locals h) = Inr v"
  obtains
    "percentCpu v < 1 \<or> percentCpu v > 100"
    "main h runTest argv0 args =
      \<lparr> trace = [Printf (Banner (SYNTHMARK_MAJOR_VERSION h) (SYNTHMARK_MINOR_VERSION h)),
                 Printf (InvalidPercentCpu (percentCpu v)), Printf (UsageText argv0)],
        exit_status = 1 \<rparr>"
  | "\<not> (percentCpu v < 1 \<or> percentCpu v > 100)"
    "(numVoices v < 1 \<and> numVoicesHigh v \<le> 0) \<or> numVoices v < 0
         \<or> numVoices v > SYNTHMARK_MAX_VOICES h"
    "main h runTest argv0 args =
      \<lparr> trace = [Printf (Banner (SYNTHMARK_MAJOR_VERSION h) (SYNTHMARK_MINOR_VERSION h)),
                 Printf (InvalidNumVoices (numVoices v)), Printf (UsageText argv0)],
        exit_status = 1 \<rparr>"
  | "\<not> (percentCpu v < 1 \<or> percentCpu v > 100)"
    "\<not> ((numVoices v < 1 \<and> numVoicesHigh v \<le> 0) \<or> numVoices v < 0
         \<or> numVoices v > SYNTHMARK_MAX_VOICES h)"
    "numVoicesHigh v \<noteq> 0 \<and> numVoicesHigh v < numVoices v"
    "main h runTest argv0 args =
      \<lparr> trace = [Printf (Banner (SYNTHMARK_MAJOR_VERSION h) (SYNTHMARK_MINOR_VERSION h)),
                 Printf (InvalidNumVoicesHigh (numVoicesHigh v)), Printf (UsageText argv0)],
        exit_status = 1 \<rparr>"
  | "\<not> (percentCpu v < 1 \<or> percentCpu v > 100)"
    "\<not> ((numVoices v < 1 \<and> numVoicesHigh v \<le> 0) \<or> numVoices v < 0
         \<or> numVoices v > SYNTHMARK_MAX_VOICES h)"
    "\<not> (numVoicesHigh v \<noteq> 0 \<and> numVoicesHigh v < numVoices v)"
    "numVoicesHigh v \<noteq> 0 \<and> testCode v \<noteq> CHR ''l''"
    "main h runTest argv0 args =
      \<lparr> trace = [Printf (Banner (SYNTHMARK_MAJOR_VERSION h) (SYNTHMARK_MINOR_VERSION h)),
                 Printf NumVoicesHighOnlyLatencyMark, Printf (UsageText argv0)],
        exit_status = 1 \<rparr>"
  | "\<not> (percentCpu v < 1 \<or> percentCpu v > 100)"
    "\<not> ((numVoices v < 1 \<and> numVoicesHigh v \<le> 0) \<or> numVoices v < 0
         \<or> numVoices v > SYNTHMARK_MAX_VOICES h)"
    "\<not> (numVoicesHigh v \<noteq> 0 \<and> numVoicesHigh v < numVoices v)"
    "\<not> (numVoicesHigh v \<noteq> 0 \<and> testCode v \<noteq> CHR ''l'')"
    "numSeconds v < 1"
    "main h runTest argv0 args =
      \<lparr> trace = [Printf (Banner (SYNTHMARK_MAJOR_VERSION h) (SYNTHMARK_MINOR_VERSION h)),
                 Printf (InvalidDuration (numSeconds v)), Printf (UsageText argv0)],
        exit_status = 1 \<rparr>"
  | "\<not> (percentCpu v < 1 \<or> percentCpu v > 100)"
    "\<not> ((numVoices v < 1 \<and> numVoicesHigh v \<le> 0) \<or> numVoices v < 0
         \<or> numVoices v > SYNTHMARK_MAX_VOICES h)"
    "\<not> (numVoicesHigh v \<noteq> 0 \<and> numVoicesHigh v < numVoices v)"
    "\<not> (numVoicesHigh v \<noteq> 0 \<and> testCode v \<noteq> CHR ''l'')"
    "\<not> numSeconds v < 1"
    "numSecondsDelayNoteOn v < 0 \<or> numSecondsDelayNoteOn v > numSeconds v"
    "main h runTest argv0 args =
      \<lparr> trace = [Printf (Banner (SYNTHMARK_MAJOR_VERSION h) (SYNTHMARK_MINOR_VERSION h)),
                 Printf (InvalidDelay (numSecondsDelayNoteOn v))],
        exit_status = 1 \<rparr>"
  | "\<not> (percentCpu v < 1 \<or> percentCpu v > 100)"
    "\<not> ((numVoices v < 1 \<and> numVoicesHigh v \<le> 0) \<or> numVoices v < 0
         \<or> numVoices v > SYNTHMARK_MAX_VOICES h)"
    "\<not> (numVoicesHigh v \<noteq> 0 \<and> numVoicesHigh v < numVoices v)"
    "\<not> (numVoicesHigh v \<noteq> 0 \<and> testCode v \<noteq> CHR ''l'')"
    "\<not> numSeconds v < 1"
    "\<not> (numSecondsDelayNoteOn v < 0 \<or> numSecondsDelayNoteOn v > numSeconds v)"
    "framesPerBurst v < 4"
    "main h runTest argv0 args =
      \<lparr> trace = [Printf (Banner (SYNTHMARK_MAJOR_VERSION h) (SYNTHMARK_MINOR_VERSION h)),
                 Printf (BlockSizeTooSmall (framesPerBurst v)), Printf (UsageText argv0)],
        exit_status = 1 \<rparr>"
  | "valid_config h v"
proof -
  let ?c1 = "percentCpu v < 1 \<or> percentCpu v > 100"
  let ?c2 = "(numVoices v < 1 \<and> numVoicesHigh v \<le> 0) \<or> numVoices v < 0
         \<or> numVoices v > SYNTHMARK_MAX_VOICES h"
  let ?c3 = "numVoicesHigh v \<noteq> 0 \<and> numVoicesHigh v < numVoices v"
  let ?c4 = "numVoicesHigh v \<noteq> 0 \<and> testCode v \<noteq> CHR ''l''"
  let ?c5 = "numSeconds v < 1"
  let ?c6 = "numSecondsDelayNoteOn v < 0 \<or> numSecondsDelayNoteOn v > numSeconds v"
  let ?c7 = "framesPerBurst v < 4"
  consider (1) "?c1" | (2) "\<not> ?c1" "?c2" | (3) "\<not> ?c1" "\<not> ?c2" "?c3"
    | (4) "\<not> ?c1" "\<not> ?c2" "\<not> ?c3" "?c4"
    | (5) "\<not> ?c1" "\<not> ?c2" "\<not> ?c3" "\<not> ?c4" "?c5"
    | (6) "\<not> ?c1" "\<not> ?c2" "\<not> ?c3" "\<not> ?c4" "\<not> ?c5" "?c6"
    | (7) "\<not> ?c1" "\<not> ?c2" "\<not> ?c3" "\<not> ?c4" "\<not> ?c5" "\<not> ?c6" "?c7"
    | (8) "\<not> ?c1" "\<not> ?c2" "\<not> ?c3" "\<not> ?c4" "\<not> ?c5" "\<not> ?c6" "\<not> ?c7"
    by blast
  then show thesis
  proof cases
    case 1
    from that(1) [OF 1 main_percentCpu [OF assms 1]] show thesis .
  next
    case 2
    from that(2) [OF 2 main_numVoices [OF assms 2]] show thesis .
  next
    case 3
    from that(3) [OF 3 main_numVoicesHigh [OF assms 3]] show thesis .
  next
    case 4
    from that(4) [OF 4 main_highOnlyLatency [OF assms 4]] show thesis .
  next
    case 5
    from that(5) [OF 5 main_numSeconds [OF assms 5]] show thesis .
  next
    case 6
    from that(6) [OF 6 main_delay [OF assms 6]] show thesis .
  next
    case 7
    from that(7) [OF 7 main_framesPerBurst [OF assms 7]] show thesis .
  next
    case 8
    then have "valid_config h v" unfolding valid_config_def by blast
    from that(8) [OF this] show thesis .
  qed
qed

lemma main_invalid_config:
  assumes "parse_args argv0 args (initial_locals h) = Inr v"
    and "\<not> valid_config h v"
  shows "exit_status (main h runTest argv0 args) = 1
    \<and> constructed (trace (main h runTest argv0 args)) = []
    \<and> runs (trace (main h runTest argv0 args)) = []"
  using assms by (cases rule: main_cases [where runTest = runTest])
    (simp_all add: constructed_def runs_def)

lemma main_unknown_testCode:
  assumes "parse_args argv0 args (initial_locals h) = Inr v"
    and "testCode v \<notin> set ''vlju''"
  shows "exit_status (main h runTest argv0 args) = 1
    \<and> constructed (trace (main h runTest argv0 args)) = []
    \<and> runs (trace (main h runTest argv0 args)) = []"
proof (cases "valid_config h v")
  case True
  from main_valid_config [OF assms(1) True] assms(2) show ?thesis
    by (simp add: constructed_def runs_def)
next
  case False
  from main_invalid_config [OF assms(1) False] show ?thesis .
qed

lemma parameter_lines_filters:
  "filter is_New (parameter_lines k v) = []" "filter is_RunTest (parameter_lines k v) = []"
  by (simp_all add: parameter_lines_def)

lemma main_run:
  assumes "parse_args argv0 args (initial_locals h) = Inr v"
    and "valid_config h v"
    and "testCode v \<in> set ''vlju''"
  shows "constructed (trace (main h runTest argv0 args)) =
      [New (if testCode v = CHR ''v'' then VoiceMarkHarness
            else if testCode v = CHR ''l'' then LatencyMarkHarness
            else if testCode v = CHR ''j'' then JitterMarkHarness
            else UtilizationMarkHarness)]"
    and "runs (trace (main h runTest argv0 args)) =
      [RunTest (sampleRate v) (framesPerBurst v) (numSeconds v)]"
  using assms(3) unfolding main_valid_config [OF assms(1,2)]
  by (auto simp add: constructed_def runs_def finished_def parameter_lines_filters)

section \<open>Properties of the argument loop and of atoi\<close>

lemma parse_args_append:
  "parse_args argv0 (pre @ rest) v =
     (case parse_args argv0 pre v of Inl r \<Rightarrow> Inl r | Inr v' \<Rightarrow> parse_args argv0 rest v')"
  by (induction pre arbitrary: v) (simp_all split: sum.splits)

lemma parse_arg_return:
  assumes "parse_arg argv0 arg v = Inl (evs, st)"
  shows "constructed evs = [] \<and> runs evs = [] \<and> (st = 0 \<or> st = 1)"
  using assms
  by (auto simp add: parse_arg_def Let_def usage_def constructed_def runs_def split: if_splits)

lemma parse_args_return:
  assumes "parse_args argv0 args v = Inl (evs, st)"
  shows "constructed evs = [] \<and> runs evs = [] \<and> (st = 0 \<or> st = 1)"
  using assms
proof (induction args arbitrary: v)
  case Nil
  then show ?case by simp
next
  case (Cons a args)
  show ?case
  proof (cases "parse_arg argv0 a v")
    case (Inl r)
    with Cons.prems have "parse_arg argv0 a v = Inl (evs, st)" by simp
    then show ?thesis by (rule parse_arg_return)
  next
    case (Inr v')
    with Cons.prems have "parse_args argv0 args v' = Inl (evs, st)" by simp
    then show ?thesis by (rule Cons.IH)
  qed
qed

lemma parse_arg_help:
  assumes "help_switch a"
  shows "parse_arg argv0 a v = Inl (usage argv0, 0)"
  using assms by (auto simp add: parse_arg_def help_switch_def Let_def)

lemma parse_arg_recognized:
  assumes "recognized_switch a"
  shows "parse_arg argv0 a v = Inl (usage argv0, 0) \<or> (\<exists>v'. parse_arg argv0 a v = Inr v')"
  using assms by (auto simp add: parse_arg_def recognized_switch_def Let_def)

lemma parse_args_recognized:
  assumes "\<forall>a \<in> set pre. recognized_switch a"
  shows "parse_args argv0 pre v = Inl (usage argv0, 0) \<or> (\<exists>v'. parse_args argv0 pre v = Inr v')"
  using assms
proof (induction pre arbitrary: v)
  case Nil
  then show ?case by simp
next
  case (Cons a pre)
  then have "recognized_switch a" by simp
  from parse_arg_recognized [OF this, of argv0 v] show ?case
  proof
    assume "parse_arg argv0 a v = Inl (usage argv0, 0)"
    then show ?thesis by simp
  next
    assume "\<exists>v'. parse_arg argv0 a v = Inr v'"
    then obtain v' where "parse_arg argv0 a v = Inr v'" ..
    moreover from Cons have "parse_args argv0 pre v' = Inl (usage argv0, 0)
        \<or> (\<exists>v''. parse_args argv0 pre v' = Inr v'')" by simp
    ultimately show ?thesis by simp
  qed
qed

lemma digits_value_no_digit:
  "\<not> isdigit (c_char_at s 0) \<Longrightarrow> digits_value acc s = acc"
  by (cases s) (simp_all add: c_char_at_def)

lemma atoi_unfold:
  "atoi s =
     int32_of (max (- (2 ^ 63)) (min (2 ^ 63 - 1)
       (case dropWhile isspace s of
          [] \<Rightarrow> 0
        | c # r \<Rightarrow>
            if c = CHR ''-'' then - digits_value 0 r
            else if c = CHR ''+'' then digits_value 0 r
            else digits_value 0 (dropWhile isspace s))))"
  by (simp add: atoi_def strtol10_def Let_def)

lemma atoi_no_digits:
  assumes "no_digits s"
  shows "atoi s = 0"
proof (cases "dropWhile isspace s")
  case Nil
  show ?thesis unfolding atoi_unfold Nil by (simp add: int32_of_def)
next
  case (Cons c r)
  show ?thesis
  proof (cases "c = CHR ''-'' \<or> c = CHR ''+''")
    case True
    with assms have "\<not> isdigit (c_char_at r 0)"
      unfolding no_digits_def Let_def Cons by (auto simp add: c_char_at_def)
    then have "digits_value 0 r = 0" by (rule digits_value_no_digit)
    with True show ?thesis unfolding atoi_unfold Cons by (auto simp add: int32_of_def)
  next
    case False
    with assms have "\<not> isdigit (c_char_at (c # r) 0)"
      unfolding no_digits_def Let_def Cons by (auto simp add: c_char_at_def)
    then have "digits_value 0 (c # r) = 0" by (rule digits_value_no_digit)
    with False show ?thesis unfolding atoi_unfold Cons by (simp add: int32_of_def)
  qed
qed

lemma parse_arg_s:
  "parse_arg argv0 (''-s'' @ x) v = Inr (v\<lparr>numSeconds := atoi x\<rparr>)"
  by (simp add: parse_arg_def c_char_at_def)

section \<open>Facts about complete runs and about the example\<close>

lemma main_valid_no_rejection:
  assumes "parse_args argv0 args (initial_locals h) = Inr v"
    and "valid_config h v"
  shows "Printf (InvalidPercentCpu x) \<notin> set (trace (main h runTest argv0 args))"
    and "Printf (InvalidNumVoices x) \<notin> set (trace (main h runTest argv0 args))"
    and "Printf (InvalidDelay x) \<notin> set (trace (main h runTest argv0 args))"
  by (simp_all add: main_valid_config [OF assms] Let_def finished_def parameter_lines_def)

lemma main_valid_calls:
  assumes "parse_args argv0 args (initial_locals h) = Inr v"
    and "valid_config h v"
  shows "Call (setTargetCpuLoad x) \<in> set (trace (main h runTest argv0 args))
      \<longleftrightarrow> testCode v = CHR ''v''
        \<and> x = double_mul (double_of_int32 (percentCpu v)) (round_double (1 / 100))"
    and "testCode v \<in> set ''vlju'' \<Longrightarrow>
      Call (setDelayNotesOn (numSecondsDelayNoteOn v)) \<in> set (trace (main h runTest argv0 args))"
    and "testCode v \<notin> set ''vlju'' \<Longrightarrow>
      Printf (UnrecognizedTestCode (testCode v)) \<in> set (trace (main h runTest argv0 args))"
  by (auto simp add: main_valid_config [OF assms] Let_def finished_def parameter_lines_def)

lemma example_values:
  "percentCpu (initial_locals example_h) = 50"
  "sampleRate (initial_locals example_h) = 48000"
  "framesPerBurst (initial_locals example_h) = 64"
  "numSeconds (initial_locals example_h) = 10"
  "numVoices (initial_locals example_h) = 8"
  "numVoicesHigh (initial_locals example_h) = 0"
  "numSecondsDelayNoteOn (initial_locals example_h) = 0"
  "cpuAffinity (initial_locals example_h) = - 1"
  "testCode (initial_locals example_h) = CHR ''v''"
  "SYNTHMARK_MAX_VOICES example_h = 512"
  by code_simp+

lemma main_valid_result:
  assumes "parse_args argv0 args (initial_locals h) = Inr v"
    and "valid_config h v"
    and "testCode v \<in> set ''vlju''"
  shows "exit_status (main h runTest argv0 args)
      = resultCode (runTest
          (takeWhile (\<lambda>e. \<not> is_RunTest e) (trace (main h runTest argv0 args)))
          (sampleRate v) (framesPerBurst v) (numSeconds v))"
    and "Printf (ResultMessage (resultMessage (runTest
          (takeWhile (\<lambda>e. \<not> is_RunTest e) (trace (main h runTest argv0 args)))
          (sampleRate v) (framesPerBurst v) (numSeconds v))))
        \<in> set (trace (main h runTest argv0 args))"
    and "RunTest r b s \<in> set (trace (main h runTest argv0 args))
      \<longleftrightarrow> r = sampleRate v \<and> b = framesPerBurst v \<and> s = numSeconds v"
  using assms(3) unfolding main_valid_config [OF assms(1,2)]
  by (auto simp add: Let_def finished_def parameter_lines_def)

section \<open>The claims\<close>

subsection \<open>C1: a high voice count below the voice count\<close>

text \<open>
  C1, as stated: for every input where numVoicesHigh is less than numVoices, validation
  fails, the exit status is 1, and no LatencyMarkHarness is constructed and runTest is not
  called. The check of line 135 is guarded by \<^verbatim>\<open>numVoicesHigh != 0\<close>: 0 means that no
  high voice count was given. On the command line \<^verbatim>\<open>synthmark -tl\<close> the high voice
  count is 0 and the voice count is 8, and the latency harness is constructed and run.
\<close>

theorem numVoicesHigh_unset_counterexample:
  "parse_args ''synthmark'' [''-tl''] (initial_locals example_h)
     = Inr ((initial_locals example_h)\<lparr>testCode := CHR ''l''\<rparr>)
   \<and> numVoicesHigh ((initial_locals example_h)\<lparr>testCode := CHR ''l''\<rparr>)
       < numVoices ((initial_locals example_h)\<lparr>testCode := CHR ''l''\<rparr>)
   \<and> constructed (trace (main example_h example_runTest ''synthmark'' [''-tl'']))
       = [New LatencyMarkHarness]
   \<and> runs (trace (main example_h example_runTest ''synthmark'' [''-tl'']))
       = [RunTest 48000 64 10]
   \<and> exit_status (main example_h example_runTest ''synthmark'' [''-tl'']) \<noteq> 1"
  by code_simp

text \<open>
  C1, amended: for every input whose arguments are all parsed and where numVoicesHigh is
  not 0 and is less than numVoices, the exit status is 1, no harness is constructed and
  runTest is not called.
\<close>

theorem numVoicesHigh_below_numVoices_rejected:
  assumes "parse_args argv0 args (initial_locals h) = Inr v"
    and "numVoicesHigh v \<noteq> 0"
    and "numVoicesHigh v < numVoices v"
  shows "exit_status (main h runTest argv0 args) = 1
    \<and> constructed (trace (main h runTest argv0 args)) = []
    \<and> runs (trace (main h runTest argv0 args)) = []"
proof -
  from assms(2,3) have "\<not> valid_config h v"
    by (simp add: valid_config_def)
  with assms(1) show ?thesis by (rule main_invalid_config)
qed

theorem numVoicesHigh_below_numVoices_rejected_witness:
  "parse_args ''synthmark'' [''-tl'', ''-n5'', ''-N2''] (initial_locals example_h)
     = Inr ((initial_locals example_h)\<lparr>testCode := CHR ''l'', numVoices := 5, numVoicesHigh := 2\<rparr>)
   \<and> exit_status (main example_h example_runTest ''synthmark'' [''-tl'', ''-n5'', ''-N2'']) = 1
   \<and> constructed (trace (main example_h example_runTest ''synthmark'' [''-tl'', ''-n5'', ''-N2''])) = []
   \<and> runs (trace (main example_h example_runTest ''synthmark'' [''-tl'', ''-n5'', ''-N2''])) = []"
proof -
  have p: "parse_args ''synthmark'' [''-tl'', ''-n5'', ''-N2''] (initial_locals example_h)
     = Inr ((initial_locals example_h)\<lparr>testCode := CHR ''l'', numVoices := 5, numVoicesHigh := 2\<rparr>)"
    by code_simp
  from numVoicesHigh_below_numVoices_rejected [OF p, of example_runTest] p
  show ?thesis by simp
qed

subsection \<open>C2: burst size and sample rate\<close>

text \<open>
  C2, as stated: for every input with a burst size below 4 frames or a sample rate of 0
  or less, the program exits with a non-zero status before a harness is constructed or
  runTest is called. \<open>main\<close> has no check of the sample rate: on the command line
  \<^verbatim>\<open>synthmark -r0\<close> the sample rate is 0, and the voice harness is constructed and
  runTest is called with the sample rate 0.
\<close>

theorem sampleRate_zero_counterexample:
  "parse_args ''synthmark'' [''-r0''] (initial_locals example_h)
     = Inr ((initial_locals example_h)\<lparr>sampleRate := 0\<rparr>)
   \<and> sampleRate ((initial_locals example_h)\<lparr>sampleRate := 0\<rparr>) \<le> 0
   \<and> constructed (trace (main example_h example_runTest ''synthmark'' [''-r0'']))
       = [New VoiceMarkHarness]
   \<and> runs (trace (main example_h example_runTest ''synthmark'' [''-r0'']))
       = [RunTest 0 64 10]"
  by code_simp

text \<open>
  C2, amended: for every input whose arguments are all parsed and whose burst size is
  below 4 frames, the exit status is 1, no harness is constructed and runTest is not
  called. The sample rate is not checked by the driver: when the other variables pass the
  checks and the test code is one of v, l, j, u, runTest is called once, with the sample
  rate as parsed.
\<close>

theorem framesPerBurst_below_4_rejected:
  assumes "parse_args argv0 args (initial_locals h) = Inr v"
  shows "(framesPerBurst v < 4 \<longrightarrow>
            exit_status (main h runTest argv0 args) = 1
            \<and> constructed (trace (main h runTest argv0 args)) = []
            \<and> runs (trace (main h runTest argv0 args)) = [])
    \<and> (valid_config h v \<and> testCode v \<in> set ''vlju'' \<longrightarrow>
            runs (trace (main h runTest argv0 args))
              = [RunTest (sampleRate v) (framesPerBurst v) (numSeconds v)])"
proof (intro conjI impI)
  assume "framesPerBurst v < 4"
  then have "\<not> valid_config h v" by (simp add: valid_config_def)
  with assms have r: "exit_status (main h runTest argv0 args) = 1
      \<and> constructed (trace (main h runTest argv0 args)) = []
      \<and> runs (trace (main h runTest argv0 args)) = []"
    by (rule main_invalid_config)
  from r show "exit_status (main h runTest argv0 args) = 1" by simp
  from r show "constructed (trace (main h runTest argv0 args)) = []" by simp
  from r show "runs (trace (main h runTest argv0 args)) = []" by simp
next
  assume "valid_config h v \<and> testCode v \<in> set ''vlju''"
  then show "runs (trace (main h runTest argv0 args))
      = [RunTest (sampleRate v) (framesPerBurst v) (numSeconds v)]"
    using main_run(2) [OF assms] by blast
qed

theorem framesPerBurst_below_4_rejected_witness:
  "parse_args ''synthmark'' [''-b3''] (initial_locals example_h)
     = Inr ((initial_locals example_h)\<lparr>framesPerBurst := 3\<rparr>)
   \<and> exit_status (main example_h example_runTest ''synthmark'' [''-b3'']) = 1
   \<and> constructed (trace (main example_h example_runTest ''synthmark'' [''-b3''])) = []
   \<and> runs (trace (main example_h example_runTest ''synthmark'' [''-b3''])) = []
   \<and> parse_args ''synthmark'' [''-r-7''] (initial_locals example_h)
     = Inr ((initial_locals example_h)\<lparr>sampleRate := - 7\<rparr>)
   \<and> valid_config example_h ((initial_locals example_h)\<lparr>sampleRate := - 7\<rparr>)
   \<and> runs (trace (main example_h example_runTest ''synthmark'' [''-r-7'']))
       = [RunTest (- 7) 64 10]"
proof -
  have p: "parse_args ''synthmark'' [''-b3''] (initial_locals example_h)
     = Inr ((initial_locals example_h)\<lparr>framesPerBurst := 3\<rparr>)"
    by code_simp
  have q: "parse_args ''synthmark'' [''-r-7''] (initial_locals example_h)
     = Inr ((initial_locals example_h)\<lparr>sampleRate := - 7\<rparr>)"
    by code_simp
  have c: "valid_config example_h ((initial_locals example_h)\<lparr>sampleRate := - 7\<rparr>)"
    by code_simp
  have s: "sampleRate ((initial_locals example_h)\<lparr>sampleRate := - 7\<rparr>) = - 7"
    "framesPerBurst ((initial_locals example_h)\<lparr>sampleRate := - 7\<rparr>) = 64"
    "numSeconds ((initial_locals example_h)\<lparr>sampleRate := - 7\<rparr>) = 10"
    "testCode ((initial_locals example_h)\<lparr>sampleRate := - 7\<rparr>) = CHR ''v''"
    by code_simp+
  from framesPerBurst_below_4_rejected [OF p, of example_runTest]
    framesPerBurst_below_4_rejected [OF q, of example_runTest] p q c s
  show ?thesis by simp
qed

subsection \<open>C3: the range of the voice count\<close>

text \<open>
  C3, as stated: validation accepts every voice count in [0, MAX_VOICES] and rejects every
  other one with exit status 1 before a run starts. The check of line 128 also returns
  when the voice count is below 1 and the high voice count is not positive: on the command
  line \<^verbatim>\<open>synthmark -n0\<close> the voice count 0 is rejected.
\<close>

theorem numVoices_zero_counterexample:
  "parse_args ''synthmark'' [''-n0''] (initial_locals example_h)
     = Inr ((initial_locals example_h)\<lparr>numVoices := 0\<rparr>)
   \<and> 0 \<le> numVoices ((initial_locals example_h)\<lparr>numVoices := 0\<rparr>)
   \<and> numVoices ((initial_locals example_h)\<lparr>numVoices := 0\<rparr>) \<le> SYNTHMARK_MAX_VOICES example_h
   \<and> main example_h example_runTest ''synthmark'' [''-n0'']
       = \<lparr> trace = [Printf (Banner 1 16), Printf (InvalidNumVoices 0),
                    Printf (UsageText ''synthmark'')],
           exit_status = 1 \<rparr>"
  by code_simp

text \<open>
  C3, amended: for every input whose arguments are all parsed, a voice count outside
  [0, MAX_VOICES], and a voice count of 0 without a positive high voice count, is rejected
  with exit status 1, and no harness is constructed and runTest is not called. When the
  percent CPU passed its check, the message of the voice count check is printed exactly
  when the voice count is not in [0, MAX_VOICES] or is 0 without a positive high voice
  count.
\<close>

theorem numVoices_range_checked:
  assumes "parse_args argv0 args (initial_locals h) = Inr v"
  shows "(\<not> (0 \<le> numVoices v \<and> numVoices v \<le> SYNTHMARK_MAX_VOICES h
              \<and> (1 \<le> numVoices v \<or> 0 < numVoicesHigh v)) \<longrightarrow>
            exit_status (main h runTest argv0 args) = 1
            \<and> constructed (trace (main h runTest argv0 args)) = []
            \<and> runs (trace (main h runTest argv0 args)) = [])
    \<and> (1 \<le> percentCpu v \<and> percentCpu v \<le> 100 \<longrightarrow>
          (Printf (InvalidNumVoices (numVoices v)) \<in> set (trace (main h runTest argv0 args))
           \<longleftrightarrow> \<not> (0 \<le> numVoices v \<and> numVoices v \<le> SYNTHMARK_MAX_VOICES h
                  \<and> (1 \<le> numVoices v \<or> 0 < numVoicesHigh v))))"
proof (intro conjI impI)
  assume bad: "\<not> (0 \<le> numVoices v \<and> numVoices v \<le> SYNTHMARK_MAX_VOICES h
              \<and> (1 \<le> numVoices v \<or> 0 < numVoicesHigh v))"
  then have "\<not> valid_config h v" by (auto simp add: valid_config_def)
  with assms have r: "exit_status (main h runTest argv0 args) = 1
      \<and> constructed (trace (main h runTest argv0 args)) = []
      \<and> runs (trace (main h runTest argv0 args)) = []"
    by (rule main_invalid_config)
  from r show "exit_status (main h runTest argv0 args) = 1" by simp
  from r show "constructed (trace (main h runTest argv0 args)) = []" by simp
  from r show "runs (trace (main h runTest argv0 args)) = []" by simp
next
  assume p: "1 \<le> percentCpu v \<and> percentCpu v \<le> 100"
  from assms show "Printf (InvalidNumVoices (numVoices v)) \<in> set (trace (main h runTest argv0 args))
           \<longleftrightarrow> \<not> (0 \<le> numVoices v \<and> numVoices v \<le> SYNTHMARK_MAX_VOICES h
                  \<and> (1 \<le> numVoices v \<or> 0 < numVoicesHigh v))"
  proof (cases rule: main_cases [where runTest = runTest])
    case percentCpu
    with p show ?thesis by simp
  next
    case numVoices
    then show ?thesis by auto
  next
    case numVoicesHigh
    then show ?thesis by auto
  next
    case highOnlyLatency
    then show ?thesis by auto
  next
    case numSeconds
    then show ?thesis by auto
  next
    case delay
    then show ?thesis by auto
  next
    case framesPerBurst
    then show ?thesis by auto
  next
    case valid
    from valid_configD(2) [OF valid] main_valid_no_rejection(2) [OF assms valid]
    show ?thesis by auto
  qed
qed

theorem numVoices_range_checked_witness:
  "parse_args ''synthmark'' [''-n600''] (initial_locals example_h)
     = Inr ((initial_locals example_h)\<lparr>numVoices := 600\<rparr>)
   \<and> exit_status (main example_h example_runTest ''synthmark'' [''-n600'']) = 1
   \<and> constructed (trace (main example_h example_runTest ''synthmark'' [''-n600''])) = []
   \<and> runs (trace (main example_h example_runTest ''synthmark'' [''-n600''])) = []
   \<and> Printf (InvalidNumVoices 600)
       \<in> set (trace (main example_h example_runTest ''synthmark'' [''-n600'']))"
proof -
  have p: "parse_args ''synthmark'' [''-n600''] (initial_locals example_h)
     = Inr ((initial_locals example_h)\<lparr>numVoices := 600\<rparr>)"
    by code_simp
  from numVoices_range_checked [OF p, of example_runTest] p
  show ?thesis by (simp add: example_values)
qed

subsection \<open>C4: the high voice count belongs to the latency test\<close>

text \<open>
  C4: a non-zero numVoicesHigh is accepted only with the test code l. For every input
  whose arguments are all parsed, with a non-zero numVoicesHigh and another test code,
  the exit status is 1, no harness is constructed and runTest is not called.
\<close>

theorem numVoicesHigh_only_for_latency:
  assumes "parse_args argv0 args (initial_locals h) = Inr v"
    and "numVoicesHigh v \<noteq> 0"
    and "testCode v \<noteq> CHR ''l''"
  shows "exit_status (main h runTest argv0 args) = 1
    \<and> constructed (trace (main h runTest argv0 args)) = []
    \<and> runs (trace (main h runTest argv0 args)) = []"
proof -
  from assms(2,3) have "\<not> valid_config h v"
    by (simp add: valid_config_def)
  with assms(1) show ?thesis by (rule main_invalid_config)
qed

theorem numVoicesHigh_only_for_latency_witness:
  "parse_args ''synthmark'' [''-N16'', ''-tj''] (initial_locals example_h)
     = Inr ((initial_locals example_h)\<lparr>numVoicesHigh := 16, testCode := CHR ''j''\<rparr>)
   \<and> exit_status (main example_h example_runTest ''synthmark'' [''-N16'', ''-tj'']) = 1
   \<and> constructed (trace (main example_h example_runTest ''synthmark'' [''-N16'', ''-tj''])) = []
   \<and> runs (trace (main example_h example_runTest ''synthmark'' [''-N16'', ''-tj''])) = []"
proof -
  have p: "parse_args ''synthmark'' [''-N16'', ''-tj''] (initial_locals example_h)
     = Inr ((initial_locals example_h)\<lparr>numVoicesHigh := 16, testCode := CHR ''j''\<rparr>)"
    by code_simp
  from numVoicesHigh_only_for_latency [OF p, of example_runTest] p
  show ?thesis by simp
qed

subsection \<open>C5: the test code selects the harness\<close>

text \<open>
  C5: for every input whose arguments are all parsed and pass the checks, the test code v
  constructs a VoiceMarkHarness, l a LatencyMarkHarness, j a JitterMarkHarness and u a
  UtilizationMarkHarness, and nothing else is constructed before the one call of runTest;
  with any other test code the error message is printed. For every input whose arguments
  are all parsed and whose test code is none of the four, the exit status is 1, no harness
  is constructed and runTest is not called.
\<close>

theorem testCode_selects_harness:
  assumes "parse_args argv0 args (initial_locals h) = Inr v"
  shows "(valid_config h v \<longrightarrow>
            (testCode v = CHR ''v'' \<longrightarrow>
               constructed (trace (main h runTest argv0 args)) = [New VoiceMarkHarness])
          \<and> (testCode v = CHR ''l'' \<longrightarrow>
               constructed (trace (main h runTest argv0 args)) = [New LatencyMarkHarness])
          \<and> (testCode v = CHR ''j'' \<longrightarrow>
               constructed (trace (main h runTest argv0 args)) = [New JitterMarkHarness])
          \<and> (testCode v = CHR ''u'' \<longrightarrow>
               constructed (trace (main h runTest argv0 args)) = [New UtilizationMarkHarness])
          \<and> (testCode v \<in> set ''vlju'' \<longrightarrow>
               runs (trace (main h runTest argv0 args))
                 = [RunTest (sampleRate v) (framesPerBurst v) (numSeconds v)])
          \<and> (testCode v \<notin> set ''vlju'' \<longrightarrow>
               Printf (UnrecognizedTestCode (testCode v))
                 \<in> set (trace (main h runTest argv0 args))))
    \<and> (testCode v \<notin> set ''vlju'' \<longrightarrow>
          exit_status (main h runTest argv0 args) = 1
          \<and> constructed (trace (main h runTest argv0 args)) = []
          \<and> runs (trace (main h runTest argv0 args)) = [])"
proof (intro conjI impI)
  assume ok: "valid_config h v"
  {
    assume "testCode v = CHR ''v''"
    with main_run(1) [OF assms ok, of runTest]
    show "constructed (trace (main h runTest argv0 args)) = [New VoiceMarkHarness]" by simp
  next
    assume "testCode v = CHR ''l''"
    with main_run(1) [OF assms ok, of runTest]
    show "constructed (trace (main h runTest argv0 args)) = [New LatencyMarkHarness]" by simp
  next
    assume "testCode v = CHR ''j''"
    with main_run(1) [OF assms ok, of runTest]
    show "constructed (trace (main h runTest argv0 args)) = [New JitterMarkHarness]" by simp
  next
    assume "testCode v = CHR ''u''"
    with main_run(1) [OF assms ok, of runTest]
    show "constructed (trace (main h runTest argv0 args)) = [New UtilizationMarkHarness]"
      by simp
  next
    assume "testCode v \<in> set ''vlju''"
    then show "runs (trace (main h runTest argv0 args))
        = [RunTest (sampleRate v) (framesPerBurst v) (numSeconds v)]"
      by (rule main_run(2) [OF assms ok])
  next
    assume "testCode v \<notin> set ''vlju''"
    then show "Printf (UnrecognizedTestCode (testCode v))
        \<in> set (trace (main h runTest argv0 args))"
      by (rule main_valid_calls(3) [OF assms ok])
  }
next
  assume other: "testCode v \<notin> set ''vlju''"
  note r = main_unknown_testCode [OF assms other, of runTest]
  from r show "exit_status (main h runTest argv0 args) = 1" by simp
  from r show "constructed (trace (main h runTest argv0 args)) = []" by simp
  from r show "runs (trace (main h runTest argv0 args)) = []" by simp
qed

theorem testCode_selects_harness_witness:
  "parse_args ''synthmark'' [''-tu''] (initial_locals example_h)
     = Inr ((initial_locals example_h)\<lparr>testCode := CHR ''u''\<rparr>)
   \<and> valid_config example_h ((initial_locals example_h)\<lparr>testCode := CHR ''u''\<rparr>)
   \<and> constructed (trace (main example_h example_runTest ''synthmark'' [''-tu'']))
       = [New UtilizationMarkHarness]
   \<and> runs (trace (main example_h example_runTest ''synthmark'' [''-tu'']))
       = [RunTest 48000 64 10]
   \<and> parse_args ''synthmark'' [''-tx''] (initial_locals example_h)
     = Inr ((initial_locals example_h)\<lparr>testCode := CHR ''x''\<rparr>)
   \<and> valid_config example_h ((initial_locals example_h)\<lparr>testCode := CHR ''x''\<rparr>)
   \<and> Printf (UnrecognizedTestCode CHR ''x'')
       \<in> set (trace (main example_h example_runTest ''synthmark'' [''-tx'']))
   \<and> exit_status (main example_h example_runTest ''synthmark'' [''-tx'']) = 1
   \<and> constructed (trace (main example_h example_runTest ''synthmark'' [''-tx''])) = []
   \<and> runs (trace (main example_h example_runTest ''synthmark'' [''-tx''])) = []"
proof -
  have p: "parse_args ''synthmark'' [''-tu''] (initial_locals example_h)
     = Inr ((initial_locals example_h)\<lparr>testCode := CHR ''u''\<rparr>)"
    by code_simp
  have q: "parse_args ''synthmark'' [''-tx''] (initial_locals example_h)
     = Inr ((initial_locals example_h)\<lparr>testCode := CHR ''x''\<rparr>)"
    by code_simp
  have c: "valid_config example_h ((initial_locals example_h)\<lparr>testCode := CHR ''u''\<rparr>)"
    "valid_config example_h ((initial_locals example_h)\<lparr>testCode := CHR ''x''\<rparr>)"
    by code_simp+
  from testCode_selects_harness [OF p, of example_runTest]
    testCode_selects_harness [OF q, of example_runTest] p q c
  show ?thesis by (simp add: example_values)
qed

subsection \<open>C6: the target CPU percent\<close>

text \<open>
  C6: for every input whose arguments are all parsed, the percent CPU p is rejected by
  the first check exactly when it is not in [1, 100], and then the exit status is 1, no
  harness is constructed and runTest is not called. A target load is passed only to the
  VoiceMarkHarness; it is the \<^verbatim>\<open>double\<close> product p * 0.01 of line 167, computed in
  binary64 arithmetic, and it lies in (0, 1]; a valid configuration with the test code v
  passes it.
\<close>

theorem percentCpu_range_checked:
  assumes "parse_args argv0 args (initial_locals h) = Inr v"
  shows "(Printf (InvalidPercentCpu (percentCpu v)) \<in> set (trace (main h runTest argv0 args))
            \<longleftrightarrow> \<not> (1 \<le> percentCpu v \<and> percentCpu v \<le> 100))
    \<and> (\<not> (1 \<le> percentCpu v \<and> percentCpu v \<le> 100) \<longrightarrow>
          exit_status (main h runTest argv0 args) = 1
          \<and> constructed (trace (main h runTest argv0 args)) = []
          \<and> runs (trace (main h runTest argv0 args)) = [])
    \<and> (\<forall>x. Call (setTargetCpuLoad x) \<in> set (trace (main h runTest argv0 args)) \<longrightarrow>
          testCode v = CHR ''v''
          \<and> x = double_mul (double_of_int32 (percentCpu v)) (round_double (1 / 100))
          \<and> 0 < x \<and> x \<le> 1)
    \<and> (valid_config h v \<and> testCode v = CHR ''v'' \<longrightarrow>
          Call (setTargetCpuLoad
                 (double_mul (double_of_int32 (percentCpu v)) (round_double (1 / 100))))
            \<in> set (trace (main h runTest argv0 args)))"
proof (intro conjI impI allI)
  from assms show "Printf (InvalidPercentCpu (percentCpu v))
      \<in> set (trace (main h runTest argv0 args))
      \<longleftrightarrow> \<not> (1 \<le> percentCpu v \<and> percentCpu v \<le> 100)"
  proof (cases rule: main_cases [where runTest = runTest])
    case valid
    from valid_configD(1) [OF valid] main_valid_no_rejection(1) [OF assms valid]
    show ?thesis by auto
  qed auto
next
  assume "\<not> (1 \<le> percentCpu v \<and> percentCpu v \<le> 100)"
  then have "\<not> valid_config h v" by (auto simp add: valid_config_def)
  note r = main_invalid_config [OF assms this, of runTest]
  from r show "exit_status (main h runTest argv0 args) = 1" by simp
  from r show "constructed (trace (main h runTest argv0 args)) = []" by simp
  from r show "runs (trace (main h runTest argv0 args)) = []" by simp
next
  fix x
  assume c: "Call (setTargetCpuLoad x) \<in> set (trace (main h runTest argv0 args))"
  from assms c have ok: "valid_config h v"
    by (cases rule: main_cases [where runTest = runTest]) auto
  from c main_valid_calls(1) [OF assms ok, of x runTest]
  have t: "testCode v = CHR ''v''"
    and x: "x = double_mul (double_of_int32 (percentCpu v)) (round_double (1 / 100))"
    by simp_all
  from valid_configD(1) [OF ok] have p: "1 \<le> percentCpu v" "percentCpu v \<le> 100"
    by simp_all
  from t show "testCode v = CHR ''v''" .
  from x show "x = double_mul (double_of_int32 (percentCpu v)) (round_double (1 / 100))" .
  from targetCpuLoad_range(1) [OF p] show "0 < x" by (simp only: x)
  from targetCpuLoad_range(2) [OF p] show "x \<le> 1" by (simp only: x)
next
  assume "valid_config h v \<and> testCode v = CHR ''v''"
  then show "Call (setTargetCpuLoad
        (double_mul (double_of_int32 (percentCpu v)) (round_double (1 / 100))))
      \<in> set (trace (main h runTest argv0 args))"
    using main_valid_calls(1) [OF assms,
        of "double_mul (double_of_int32 (percentCpu v)) (round_double (1 / 100))" runTest]
    by simp
qed

theorem percentCpu_range_checked_witness:
  "parse_args ''synthmark'' [''-p101''] (initial_locals example_h)
     = Inr ((initial_locals example_h)\<lparr>percentCpu := 101\<rparr>)
   \<and> Printf (InvalidPercentCpu 101)
       \<in> set (trace (main example_h example_runTest ''synthmark'' [''-p101'']))
   \<and> exit_status (main example_h example_runTest ''synthmark'' [''-p101'']) = 1
   \<and> constructed (trace (main example_h example_runTest ''synthmark'' [''-p101''])) = []
   \<and> runs (trace (main example_h example_runTest ''synthmark'' [''-p101''])) = []
   \<and> parse_args ''synthmark'' [''-p100''] (initial_locals example_h)
     = Inr ((initial_locals example_h)\<lparr>percentCpu := 100\<rparr>)
   \<and> valid_config example_h ((initial_locals example_h)\<lparr>percentCpu := 100\<rparr>)
   \<and> Call (setTargetCpuLoad 1)
       \<in> set (trace (main example_h example_runTest ''synthmark'' [''-p100'']))
   \<and> parse_args ''synthmark'' [''-p7''] (initial_locals example_h)
     = Inr ((initial_locals example_h)\<lparr>percentCpu := 7\<rparr>)
   \<and> valid_config example_h ((initial_locals example_h)\<lparr>percentCpu := 7\<rparr>)
   \<and> Call (setTargetCpuLoad (1261007895663739 / 18014398509481984))
       \<in> set (trace (main example_h example_runTest ''synthmark'' [''-p7'']))"
proof -
  have p: "parse_args ''synthmark'' [''-p101''] (initial_locals example_h)
     = Inr ((initial_locals example_h)\<lparr>percentCpu := 101\<rparr>)"
    by code_simp
  have q: "parse_args ''synthmark'' [''-p100''] (initial_locals example_h)
     = Inr ((initial_locals example_h)\<lparr>percentCpu := 100\<rparr>)"
    by code_simp
  have r: "parse_args ''synthmark'' [''-p7''] (initial_locals example_h)
     = Inr ((initial_locals example_h)\<lparr>percentCpu := 7\<rparr>)"
    by code_simp
  have c: "valid_config example_h ((initial_locals example_h)\<lparr>percentCpu := 100\<rparr>)"
    "valid_config example_h ((initial_locals example_h)\<lparr>percentCpu := 7\<rparr>)"
    by code_simp+
  from percentCpu_range_checked [OF p, of example_runTest]
    percentCpu_range_checked [OF q, of example_runTest]
    percentCpu_range_checked [OF r, of example_runTest] p q r c
  show ?thesis by (simp add: example_values load_100 load_7)
qed

subsection \<open>C7: the delay of the first note\<close>

text \<open>
  C7: for every input whose arguments are all parsed, a delay that is negative or greater
  than the duration gives exit status 1, no harness and no call of runTest; a delay d with
  0 \<le> d \<le> duration is not rejected by the delay check; when the five earlier checks
  pass, the message of the delay check is printed exactly when the delay is out of range;
  and a valid configuration with one of the four test codes passes the delay to the
  harness.
\<close>

theorem noteOnDelay_range_checked:
  assumes "parse_args argv0 args (initial_locals h) = Inr v"
  shows "(numSecondsDelayNoteOn v < 0 \<or> numSecondsDelayNoteOn v > numSeconds v \<longrightarrow>
            exit_status (main h runTest argv0 args) = 1
            \<and> constructed (trace (main h runTest argv0 args)) = []
            \<and> runs (trace (main h runTest argv0 args)) = [])
    \<and> (0 \<le> numSecondsDelayNoteOn v \<and> numSecondsDelayNoteOn v \<le> numSeconds v \<longrightarrow>
          Printf (InvalidDelay (numSecondsDelayNoteOn v))
            \<notin> set (trace (main h runTest argv0 args)))
    \<and> (\<not> (percentCpu v < 1 \<or> percentCpu v > 100)
        \<and> \<not> ((numVoices v < 1 \<and> numVoicesHigh v \<le> 0) \<or> numVoices v < 0
               \<or> numVoices v > SYNTHMARK_MAX_VOICES h)
        \<and> \<not> (numVoicesHigh v \<noteq> 0 \<and> numVoicesHigh v < numVoices v)
        \<and> \<not> (numVoicesHigh v \<noteq> 0 \<and> testCode v \<noteq> CHR ''l'')
        \<and> \<not> numSeconds v < 1 \<longrightarrow>
          (Printf (InvalidDelay (numSecondsDelayNoteOn v))
             \<in> set (trace (main h runTest argv0 args))
           \<longleftrightarrow> numSecondsDelayNoteOn v < 0 \<or> numSecondsDelayNoteOn v > numSeconds v))
    \<and> (valid_config h v \<and> testCode v \<in> set ''vlju'' \<longrightarrow>
          Call (setDelayNotesOn (numSecondsDelayNoteOn v))
            \<in> set (trace (main h runTest argv0 args)))"
proof (intro conjI impI)
  assume "numSecondsDelayNoteOn v < 0 \<or> numSecondsDelayNoteOn v > numSeconds v"
  then have "\<not> valid_config h v" by (auto simp add: valid_config_def)
  note r = main_invalid_config [OF assms this, of runTest]
  from r show "exit_status (main h runTest argv0 args) = 1" by simp
  from r show "constructed (trace (main h runTest argv0 args)) = []" by simp
  from r show "runs (trace (main h runTest argv0 args)) = []" by simp
next
  assume inr: "0 \<le> numSecondsDelayNoteOn v \<and> numSecondsDelayNoteOn v \<le> numSeconds v"
  from assms show "Printf (InvalidDelay (numSecondsDelayNoteOn v))
      \<notin> set (trace (main h runTest argv0 args))"
  proof (cases rule: main_cases [where runTest = runTest])
    case delay
    with inr show ?thesis by auto
  next
    case valid
    from main_valid_no_rejection(3) [OF assms valid] show ?thesis .
  qed auto
next
  assume earlier: "\<not> (percentCpu v < 1 \<or> percentCpu v > 100)
        \<and> \<not> ((numVoices v < 1 \<and> numVoicesHigh v \<le> 0) \<or> numVoices v < 0
               \<or> numVoices v > SYNTHMARK_MAX_VOICES h)
        \<and> \<not> (numVoicesHigh v \<noteq> 0 \<and> numVoicesHigh v < numVoices v)
        \<and> \<not> (numVoicesHigh v \<noteq> 0 \<and> testCode v \<noteq> CHR ''l'')
        \<and> \<not> numSeconds v < 1"
  from assms show "Printf (InvalidDelay (numSecondsDelayNoteOn v))
      \<in> set (trace (main h runTest argv0 args))
      \<longleftrightarrow> numSecondsDelayNoteOn v < 0 \<or> numSecondsDelayNoteOn v > numSeconds v"
  proof (cases rule: main_cases [where runTest = runTest])
    case percentCpu
    with earlier show ?thesis by blast
  next
    case numVoices
    with earlier show ?thesis by blast
  next
    case numVoicesHigh
    with earlier show ?thesis by blast
  next
    case highOnlyLatency
    with earlier show ?thesis by blast
  next
    case numSeconds
    with earlier show ?thesis by blast
  next
    case delay
    then show ?thesis by simp
  next
    case framesPerBurst
    then show ?thesis by simp
  next
    case valid
    from valid_configD(6) [OF valid] main_valid_no_rejection(3) [OF assms valid]
    show ?thesis by blast
  qed
next
  assume "valid_config h v \<and> testCode v \<in> set ''vlju''"
  then show "Call (setDelayNotesOn (numSecondsDelayNoteOn v))
      \<in> set (trace (main h runTest argv0 args))"
    using main_valid_calls(2) [OF assms] by blast
qed

theorem noteOnDelay_range_checked_witness:
  "parse_args ''synthmark'' [''-d11''] (initial_locals example_h)
     = Inr ((initial_locals example_h)\<lparr>numSecondsDelayNoteOn := 11\<rparr>)
   \<and> exit_status (main example_h example_runTest ''synthmark'' [''-d11'']) = 1
   \<and> constructed (trace (main example_h example_runTest ''synthmark'' [''-d11''])) = []
   \<and> runs (trace (main example_h example_runTest ''synthmark'' [''-d11''])) = []
   \<and> Printf (InvalidDelay 11)
       \<in> set (trace (main example_h example_runTest ''synthmark'' [''-d11'']))
   \<and> parse_args ''synthmark'' [''-d10''] (initial_locals example_h)
     = Inr ((initial_locals example_h)\<lparr>numSecondsDelayNoteOn := 10\<rparr>)
   \<and> valid_config example_h ((initial_locals example_h)\<lparr>numSecondsDelayNoteOn := 10\<rparr>)
   \<and> Printf (InvalidDelay 10)
       \<notin> set (trace (main example_h example_runTest ''synthmark'' [''-d10'']))
   \<and> Call (setDelayNotesOn 10)
       \<in> set (trace (main example_h example_runTest ''synthmark'' [''-d10'']))"
proof -
  have p: "parse_args ''synthmark'' [''-d11''] (initial_locals example_h)
     = Inr ((initial_locals example_h)\<lparr>numSecondsDelayNoteOn := 11\<rparr>)"
    by code_simp
  have q: "parse_args ''synthmark'' [''-d10''] (initial_locals example_h)
     = Inr ((initial_locals example_h)\<lparr>numSecondsDelayNoteOn := 10\<rparr>)"
    by code_simp
  have c: "valid_config example_h ((initial_locals example_h)\<lparr>numSecondsDelayNoteOn := 10\<rparr>)"
    by code_simp
  from noteOnDelay_range_checked [OF p, of example_runTest]
    noteOnDelay_range_checked [OF q, of example_runTest] p q c
  show ?thesis by (simp add: example_values)
qed

subsection \<open>C8: the exit status after a run\<close>

text \<open>
  C8: for every input, when runTest was called, the exit status of \<open>main\<close> is the result
  code that this call left in the SynthMarkResult, and the message of the same result is
  printed. What each code stands for is decided by the harnesses, which are not part of the
  driver.
\<close>

theorem exit_status_is_resultCode:
  assumes "RunTest r b s \<in> set (trace (main h runTest argv0 args))"
  shows "exit_status (main h runTest argv0 args)
      = resultCode (runTest
          (takeWhile (\<lambda>e. \<not> is_RunTest e) (trace (main h runTest argv0 args))) r b s)
    \<and> Printf (ResultMessage (resultMessage (runTest
          (takeWhile (\<lambda>e. \<not> is_RunTest e) (trace (main h runTest argv0 args))) r b s)))
        \<in> set (trace (main h runTest argv0 args))"
proof (cases "parse_args argv0 args (initial_locals h)")
  case (Inl early)
  obtain evs st where e: "early = (evs, st)" by (cases early)
  from parse_args_return [OF Inl [unfolded e]] have "\<forall>e \<in> set evs. \<not> is_RunTest e"
    by (simp add: runs_def filter_empty_conv)
  then have "RunTest r b s \<notin> set evs" by auto
  with assms main_early_return [OF Inl [unfolded e], of runTest] show ?thesis by simp
next
  case (Inr v)
  from Inr assms have ok: "valid_config h v"
    by (cases rule: main_cases [where runTest = runTest]) auto
  have known: "testCode v \<in> set ''vlju''"
  proof (rule ccontr)
    assume "testCode v \<notin> set ''vlju''"
    from main_unknown_testCode [OF Inr this, of runTest]
    have "\<forall>e \<in> set (trace (main h runTest argv0 args)). \<not> is_RunTest e"
      by (simp add: runs_def filter_empty_conv)
    with assms show False by auto
  qed
  from assms main_valid_result(3) [OF Inr ok known, of r b s runTest]
  have "r = sampleRate v" and "b = framesPerBurst v" and "s = numSeconds v"
    by simp_all
  with main_valid_result(1,2) [OF Inr ok known, of runTest] show ?thesis by simp
qed

theorem exit_status_is_resultCode_witness:
  "RunTest 44100 64 3
     \<in> set (trace (main example_h example_runTest ''synthmark'' [''-r44100'', ''-s3'']))
   \<and> exit_status (main example_h example_runTest ''synthmark'' [''-r44100'', ''-s3'']) = 3"
proof -
  have p: "RunTest 44100 64 3
     \<in> set (trace (main example_h example_runTest ''synthmark'' [''-r44100'', ''-s3'']))"
    by code_simp
  from exit_status_is_resultCode [OF p] p show ?thesis
    by (simp add: example_runTest_def)
qed

subsection \<open>C9: the duration\<close>

text \<open>
  C9: for every input whose arguments are all parsed and whose duration is below 1 second,
  the exit status is 1, no harness is constructed and runTest is not called. This includes
  a last argument -s without a number: atoi yields 0 for it.
\<close>

theorem numSeconds_below_1_rejected:
  "(parse_args argv0 args (initial_locals h) = Inr v \<and> numSeconds v < 1 \<longrightarrow>
      exit_status (main h runTest argv0 args) = 1
      \<and> constructed (trace (main h runTest argv0 args)) = []
      \<and> runs (trace (main h runTest argv0 args)) = [])
   \<and> (parse_args argv0 pre (initial_locals h) = Inr v0 \<and> no_digits x \<longrightarrow>
      parse_args argv0 (pre @ [''-s'' @ x]) (initial_locals h) = Inr (v0\<lparr>numSeconds := 0\<rparr>)
      \<and> exit_status (main h runTest argv0 (pre @ [''-s'' @ x])) = 1
      \<and> constructed (trace (main h runTest argv0 (pre @ [''-s'' @ x]))) = []
      \<and> runs (trace (main h runTest argv0 (pre @ [''-s'' @ x]))) = [])"
proof -
  have short: "exit_status (main h runTest argv0 as) = 1
      \<and> constructed (trace (main h runTest argv0 as)) = []
      \<and> runs (trace (main h runTest argv0 as)) = []"
    if "parse_args argv0 as (initial_locals h) = Inr w" and "numSeconds w < 1" for as w
  proof -
    from that(2) have "\<not> valid_config h w" by (simp add: valid_config_def)
    with that(1) show ?thesis by (rule main_invalid_config)
  qed
  have unparsable: "parse_args argv0 (pre @ [''-s'' @ x]) (initial_locals h)
      = Inr (v0\<lparr>numSeconds := 0\<rparr>)"
    if "parse_args argv0 pre (initial_locals h) = Inr v0" and "no_digits x"
    using that atoi_no_digits [OF that(2)]
    by (simp add: parse_args_append parse_arg_s del: append.simps)
  show ?thesis
  proof (intro conjI impI)
    assume a: "parse_args argv0 args (initial_locals h) = Inr v \<and> numSeconds v < 1"
    then have r: "exit_status (main h runTest argv0 args) = 1
      \<and> constructed (trace (main h runTest argv0 args)) = []
      \<and> runs (trace (main h runTest argv0 args)) = []"
      using short by blast
    from r show "exit_status (main h runTest argv0 args) = 1" by simp
    from r show "constructed (trace (main h runTest argv0 args)) = []" by simp
    from r show "runs (trace (main h runTest argv0 args)) = []" by simp
  next
    assume b: "parse_args argv0 pre (initial_locals h) = Inr v0 \<and> no_digits x"
    then have u: "parse_args argv0 (pre @ [''-s'' @ x]) (initial_locals h)
        = Inr (v0\<lparr>numSeconds := 0\<rparr>)"
      using unparsable by blast
    have "numSeconds (v0\<lparr>numSeconds := 0\<rparr>) < 1" by simp
    note r = short [OF u this]
    from u show "parse_args argv0 (pre @ [''-s'' @ x]) (initial_locals h)
        = Inr (v0\<lparr>numSeconds := 0\<rparr>)" .
    from r show "exit_status (main h runTest argv0 (pre @ [''-s'' @ x])) = 1" by simp
    from r show "constructed (trace (main h runTest argv0 (pre @ [''-s'' @ x]))) = []" by simp
    from r show "runs (trace (main h runTest argv0 (pre @ [''-s'' @ x]))) = []" by simp
  qed
qed

theorem numSeconds_below_1_rejected_witness:
  "parse_args ''synthmark'' [''-s-2''] (initial_locals example_h)
     = Inr ((initial_locals example_h)\<lparr>numSeconds := - 2\<rparr>)
   \<and> exit_status (main example_h example_runTest ''synthmark'' [''-s-2'']) = 1
   \<and> constructed (trace (main example_h example_runTest ''synthmark'' [''-s-2''])) = []
   \<and> runs (trace (main example_h example_runTest ''synthmark'' [''-s-2''])) = []
   \<and> parse_args ''synthmark'' [''-tj''] (initial_locals example_h)
     = Inr ((initial_locals example_h)\<lparr>testCode := CHR ''j''\<rparr>)
   \<and> no_digits ''ten''
   \<and> exit_status (main example_h example_runTest ''synthmark'' [''-tj'', ''-sten'']) = 1
   \<and> constructed (trace (main example_h example_runTest ''synthmark'' [''-tj'', ''-sten''])) = []
   \<and> runs (trace (main example_h example_runTest ''synthmark'' [''-tj'', ''-sten''])) = []"
proof -
  have p: "parse_args ''synthmark'' [''-s-2''] (initial_locals example_h)
     = Inr ((initial_locals example_h)\<lparr>numSeconds := - 2\<rparr>)"
    by code_simp
  have q: "parse_args ''synthmark'' [''-tj''] (initial_locals example_h)
     = Inr ((initial_locals example_h)\<lparr>testCode := CHR ''j''\<rparr>)"
    by code_simp
  have n: "no_digits ''ten''" by code_simp
  from numSeconds_below_1_rejected [of "''synthmark''" "[''-s-2'']" example_h
      "(initial_locals example_h)\<lparr>numSeconds := - 2\<rparr>" example_runTest "[''-tj'']"
      "(initial_locals example_h)\<lparr>testCode := CHR ''j''\<rparr>" "''ten''"] p q n
  show ?thesis by simp
qed

subsection \<open>C10: the help switch\<close>

text \<open>
  C10: when an argument -h or -? follows only arguments that the switch recognizes, \<open>main\<close>
  prints the banner and the usage text and returns 0: nothing else is printed, no variable
  is checked, no harness is constructed and runTest is not called, whatever the other
  arguments are.
\<close>

theorem help_returns_zero:
  assumes "\<forall>a \<in> set pre. recognized_switch a"
    and "help_switch arg"
  shows "main h runTest argv0 (pre @ arg # post) =
    \<lparr> trace = [Printf (Banner (SYNTHMARK_MAJOR_VERSION h) (SYNTHMARK_MINOR_VERSION h)),
               Printf (UsageText argv0)],
      exit_status = 0 \<rparr>"
proof -
  have "parse_args argv0 (pre @ arg # post) (initial_locals h) = Inl (usage argv0, 0)"
  proof -
    from parse_args_recognized [OF assms(1), of argv0 "initial_locals h"] show ?thesis
    proof
      assume "parse_args argv0 pre (initial_locals h) = Inl (usage argv0, 0)"
      then show ?thesis by (simp add: parse_args_append)
    next
      assume "\<exists>v'. parse_args argv0 pre (initial_locals h) = Inr v'"
      then obtain v' where "parse_args argv0 pre (initial_locals h) = Inr v'" ..
      then show ?thesis by (simp add: parse_args_append parse_arg_help [OF assms(2)])
    qed
  qed
  from main_early_return [OF this] show ?thesis by (simp add: usage_def)
qed

theorem help_returns_zero_witness:
  "recognized_switch ''-n0''
   \<and> recognized_switch ''-p500''
   \<and> help_switch ''-?''
   \<and> main example_h example_runTest ''synthmark'' [''-n0'', ''-p500'', ''-?'', ''junk'', ''-b1'']
     = \<lparr> trace = [Printf (Banner 1 16), Printf (UsageText ''synthmark'')], exit_status = 0 \<rparr>"
proof -
  have r: "\<forall>a \<in> set [''-n0'', ''-p500'']. recognized_switch a"
    by (simp add: recognized_switch_def c_char_at_def)
  have hs: "help_switch ''-?''"
    by (simp add: help_switch_def c_char_at_def)
  from help_returns_zero [OF r hs, of example_h example_runTest "''synthmark''"
      "[''junk'', ''-b1'']"]
    r hs
  show ?thesis by (simp add: example_h_def)
qed

end
